theory Spec2Isabelle
  imports Main "HOL-Library.Word"
begin

section \<open>Failures of the source as values\<close>

text \<open>
  The C++ sources abort on a failed \<^verbatim>\<open>assert\<close>, on \<^verbatim>\<open>llvm_unreachable\<close> and on a
  dereferenced null pointer. The model is the build with assertions enabled; every such
  abort is a value of \<open>error\<close>, returned as \<open>Inl\<close>.
\<close>

datatype error =
    AssertionFailed string
  | Unreachable string
  | NullDereference string

section \<open>Template-argument diffing: \<^verbatim>\<open>lib/AST/ASTDiagnostic.cpp\<close>\<close>

text \<open>
  An \<^verbatim>\<open>llvm::APSInt\<close>: a bit width, a signedness flag and the bit pattern, kept as
  the unsigned number \<open>apBits\<close> below \<open>2 ^ apWidth\<close>.
\<close>

record apsint =
  apWidth :: nat
  apUnsigned :: bool
  apBits :: int

text \<open>The base of an lvalue \<^verbatim>\<open>APValue\<close>: null, a \<^verbatim>\<open>ValueDecl\<close> or an expression.\<close>

datatype lvalue_base = NullBase | ValueDeclBase nat | ExprBase nat

text \<open>\<^verbatim>\<open>APValue\<close>, one constructor per \<^verbatim>\<open>APValue::ValueKind\<close>.\<close>

datatype apvalue =
    AP_Uninitialized
  | AP_Int apsint
  | AP_Float
  | AP_ComplexInt
  | AP_ComplexFloat
  | AP_LValue lvalue_base
  | AP_Vector
  | AP_Array
  | AP_Struct
  | AP_Union
  | AP_MemberPointer "nat option"
  | AP_AddrLabelDiff

datatype apvalue_kind =
    K_Uninitialized | K_Int | K_Float | K_ComplexInt | K_ComplexFloat | K_LValue
  | K_Vector | K_Array | K_Struct | K_Union | K_MemberPointer | K_AddrLabelDiff

fun getKind :: "apvalue \<Rightarrow> apvalue_kind" where
  "getKind AP_Uninitialized = K_Uninitialized"
| "getKind (AP_Int _) = K_Int"
| "getKind AP_Float = K_Float"
| "getKind AP_ComplexInt = K_ComplexInt"
| "getKind AP_ComplexFloat = K_ComplexFloat"
| "getKind (AP_LValue _) = K_LValue"
| "getKind AP_Vector = K_Vector"
| "getKind AP_Array = K_Array"
| "getKind AP_Struct = K_Struct"
| "getKind AP_Union = K_Union"
| "getKind (AP_MemberPointer _) = K_MemberPointer"
| "getKind AP_AddrLabelDiff = K_AddrLabelDiff"

text \<open>
  The template argument expressions. A node carries its address as an identifier, so
  that equality of two values is the pointer equality of the source. \<open>ValueExpr\<close> is
  any expression other than a parenthesis or a declaration reference; it carries what
  \<^verbatim>\<open>EvaluateAsRValue\<close> gives for it, \<open>None\<close> when the evaluation fails.
\<close>

datatype expr =
    ParenExpr nat expr
  | DeclRefExpr nat nat
  | ValueExpr nat "apvalue option"

fun IgnoreParens :: "expr \<Rightarrow> expr" where
  "IgnoreParens (ParenExpr _ e) = IgnoreParens e"
| "IgnoreParens e = e"

fun isDeclRefExpr :: "expr \<Rightarrow> bool" where
  "isDeclRefExpr (DeclRefExpr _ _) = True"
| "isDeclRefExpr _ = False"

fun getDecl :: "expr \<Rightarrow> nat option" where
  "getDecl (DeclRefExpr _ d) = Some d"
| "getDecl _ = None"

fun EvaluateAsRValue :: "expr \<Rightarrow> apvalue option" where
  "EvaluateAsRValue (ValueExpr _ r) = r"
| "EvaluateAsRValue (ParenExpr _ e) = EvaluateAsRValue e"
| "EvaluateAsRValue (DeclRefExpr _ _) = None"

text \<open>
  \<^verbatim>\<open>APSInt::extOrTrunc(Width)\<close> (\<^verbatim>\<open>APSInt\<close> is not under src/) zero-extends an
  unsigned and sign-extends a signed number to a greater width, truncates it to a
  smaller one and leaves it as it is at its own width: the result is the number the
  bits denote, modulo \<open>2 ^ Width\<close>. The truncation asserts that the new width is not
  0.
\<close>

definition apsint_value :: "apsint \<Rightarrow> int" where
  "apsint_value x =
     (if apUnsigned x \<or> apBits x < 2 ^ (apWidth x - 1) then apBits x
      else apBits x - 2 ^ apWidth x)"

definition extOrTrunc :: "nat \<Rightarrow> apsint \<Rightarrow> error + int" where
  "extOrTrunc w x =
     (if w < apWidth x \<and> w = 0 then Inl (AssertionFailed ''Can not truncate to 0 bits'')
      else Inr (apsint_value x mod 2 ^ w))"

definition IsSameConvertedInt :: "nat \<Rightarrow> apsint \<Rightarrow> apsint \<Rightarrow> error + bool" where
  "IsSameConvertedInt Width X Y =
     (case extOrTrunc Width X of
        Inl e \<Rightarrow> Inl e
      | Inr ConvertedX \<Rightarrow>
          (case extOrTrunc Width Y of
             Inl e \<Rightarrow> Inl e
           | Inr ConvertedY \<Rightarrow> Inr (ConvertedX = ConvertedY)))"

text \<open>\<^verbatim>\<open>LValueBase::get<const ValueDecl*>()\<close> asserts that the base holds a declaration.\<close>

fun getValueDecl :: "lvalue_base \<Rightarrow> error + nat option" where
  "getValueDecl NullBase = Inr None"
| "getValueDecl (ValueDeclBase d) = Inr (Some d)"
| "getValueDecl (ExprBase _) = Inl (AssertionFailed ''Invalid accessor called'')"

definition compareLValueBases :: "lvalue_base \<Rightarrow> lvalue_base \<Rightarrow> error + bool" where
  "compareLValueBases FromBase ToBase =
     (if FromBase = NullBase \<and> ToBase = NullBase then Inr True
      else if FromBase = NullBase \<or> ToBase = NullBase then Inr False
      else (case getValueDecl FromBase of
              Inl e \<Rightarrow> Inl e
            | Inr f \<Rightarrow> (case getValueDecl ToBase of
                          Inl e \<Rightarrow> Inl e
                        | Inr t \<Rightarrow> Inr (f = t))))"

text \<open>
  The \<^verbatim>\<open>switch\<close> on \<^verbatim>\<open>FromVal.getKind()\<close>. The accessors \<^verbatim>\<open>getInt\<close>,
  \<^verbatim>\<open>getLValueBase\<close> and \<^verbatim>\<open>getMemberPointerDecl\<close> assert the kind of the value
  they are called on.
\<close>

definition compareValues :: "nat \<Rightarrow> apvalue \<Rightarrow> apvalue \<Rightarrow> error + bool" where
  "compareValues ParamWidth FromVal ToVal =
     (case FromVal of
        AP_Int x \<Rightarrow>
          (case ToVal of
             AP_Int y \<Rightarrow> IsSameConvertedInt ParamWidth x y
           | _ \<Rightarrow> Inl (AssertionFailed ''Invalid accessor called''))
      | AP_LValue f \<Rightarrow>
          (case ToVal of
             AP_LValue t \<Rightarrow> compareLValueBases f t
           | _ \<Rightarrow> Inl (AssertionFailed ''Invalid accessor called''))
      | AP_MemberPointer f \<Rightarrow>
          (case ToVal of
             AP_MemberPointer t \<Rightarrow> Inr (f = t)
           | _ \<Rightarrow> Inl (AssertionFailed ''Invalid accessor called''))
      | _ \<Rightarrow> Inl (Unreachable ''Unknown template argument expression.''))"

definition IsEqualExpr :: "nat \<Rightarrow> expr option \<Rightarrow> expr option \<Rightarrow> error + bool" where
  "IsEqualExpr ParamWidth FromExpr ToExpr =
     (if FromExpr = ToExpr then Inr True
      else case (FromExpr, ToExpr) of
        (None, _) \<Rightarrow> Inr False
      | (_, None) \<Rightarrow> Inr False
      | (Some f0, Some t0) \<Rightarrow>
          (let f = IgnoreParens f0; t = IgnoreParens t0 in
           if isDeclRefExpr f \<or> isDeclRefExpr t then
             (if \<not> isDeclRefExpr f \<or> \<not> isDeclRefExpr t then Inr False
              else Inr (getDecl f = getDecl t))
           else case (EvaluateAsRValue f, EvaluateAsRValue t) of
             (None, _) \<Rightarrow>
               Inl (AssertionFailed ''Template arguments must be known at compile time.'')
           | (_, None) \<Rightarrow>
               Inl (AssertionFailed ''Template arguments must be known at compile time.'')
           | (Some FromVal, Some ToVal) \<Rightarrow>
               if getKind FromVal \<noteq> getKind ToVal then Inr False
               else compareValues ParamWidth FromVal ToVal))"

section \<open>Calls and returns: \<^verbatim>\<open>lib/StaticAnalyzer/Core/ExprEngineCallAndReturn.cpp\<close>\<close>

subsection \<open>Declarations, statements, location contexts\<close>

text \<open>
  A declaration with its address; function and block declarations carry
  \<^verbatim>\<open>isVariadic()\<close>. C++ methods, constructors and destructors are function
  declarations.
\<close>

datatype decl =
    FunctionDecl nat bool
  | BlockDecl nat bool
  | ObjCMethodDecl nat bool
  | OtherDecl nat

datatype construction_kind = CK_Complete | CK_NonVirtualBase | CK_VirtualBase | CK_Delegating

text \<open>
  A statement with its address. A construct expression carries the record its
  constructor belongs to (\<^verbatim>\<open>getConstructor()->getParent()\<close>) and its construction kind.
\<close>

datatype stmt =
    ReturnStmt nat
  | CXXConstructExpr nat nat construction_kind
  | CallExpr nat
  | OtherStmt nat

fun isCXXConstructExpr :: "stmt \<Rightarrow> bool" where
  "isCXXConstructExpr (CXXConstructExpr _ _ _) = True"
| "isCXXConstructExpr _ = False"

type_synonym block_ref = nat

text \<open>
  The chain of location contexts. Every pointer of the source is an \<open>option\<close>, \<open>None\<close>
  the null pointer. A stack frame holds its declaration, its parent, the call site, the
  block of the call site and the index of the call site in that block.
\<close>

datatype loc_ctx =
    StackFrameContext decl "loc_ctx option" "stmt option" "block_ref option" "32 word"
  | ScopeContext decl "loc_ctx option" stmt
  | BlockInvocationContext decl "loc_ctx option" decl nat

fun getParent :: "loc_ctx \<Rightarrow> loc_ctx option" where
  "getParent (StackFrameContext _ p _ _ _) = p"
| "getParent (ScopeContext _ p _) = p"
| "getParent (BlockInvocationContext _ p _ _) = p"

fun getCtxDecl :: "loc_ctx \<Rightarrow> decl" where
  "getCtxDecl (StackFrameContext d _ _ _ _) = d"
| "getCtxDecl (ScopeContext d _ _) = d"
| "getCtxDecl (BlockInvocationContext d _ _ _) = d"

fun getCallSite :: "loc_ctx \<Rightarrow> stmt option" where
  "getCallSite (StackFrameContext _ _ s _ _) = s"
| "getCallSite _ = None"

fun getCallSiteBlock :: "loc_ctx \<Rightarrow> block_ref option" where
  "getCallSiteBlock (StackFrameContext _ _ _ b _) = b"
| "getCallSiteBlock _ = None"

fun getIndex :: "loc_ctx \<Rightarrow> 32 word" where
  "getIndex (StackFrameContext _ _ _ _ i) = i"
| "getIndex _ = 0"

text \<open>\<^verbatim>\<open>LocationContext::getCurrentStackFrame\<close>: the first stack frame from here upwards.\<close>

fun getCurrentStackFrame :: "loc_ctx \<Rightarrow> loc_ctx option" where
  "getCurrentStackFrame (StackFrameContext d p s b i) = Some (StackFrameContext d p s b i)"
| "getCurrentStackFrame (ScopeContext _ p _) =
     (case p of None \<Rightarrow> None | Some l \<Rightarrow> getCurrentStackFrame l)"
| "getCurrentStackFrame (BlockInvocationContext _ p _ _) =
     (case p of None \<Rightarrow> None | Some l \<Rightarrow> getCurrentStackFrame l)"

text \<open>
  \<^verbatim>\<open>getNumberStackFrames\<close>: the loop over the parent chain, with the \<^verbatim>\<open>unsigned\<close>
  counter as its accumulator.
\<close>

fun countStackFrames :: "32 word \<Rightarrow> loc_ctx \<Rightarrow> 32 word" where
  "countStackFrames count (StackFrameContext _ p _ _ _) =
     (case p of None \<Rightarrow> count + 1 | Some l \<Rightarrow> countStackFrames (count + 1) l)"
| "countStackFrames count (ScopeContext _ p _) =
     (case p of None \<Rightarrow> count | Some l \<Rightarrow> countStackFrames count l)"
| "countStackFrames count (BlockInvocationContext _ p _ _) =
     (case p of None \<Rightarrow> count | Some l \<Rightarrow> countStackFrames count l)"

definition getNumberStackFrames :: "loc_ctx option \<Rightarrow> 32 word" where
  "getNumberStackFrames LCtx =
     (case LCtx of None \<Rightarrow> 0 | Some l \<Rightarrow> countStackFrames 0 l)"

text \<open>
  The number of stack-frame contexts of a chain as a natural number, the quantity the
  specification bounds; \<open>getNumberStackFrames\<close> is compared with it below.
\<close>

fun stackFrameDepth :: "loc_ctx \<Rightarrow> nat" where
  "stackFrameDepth (StackFrameContext _ p _ _ _) =
     Suc (case p of None \<Rightarrow> 0 | Some l \<Rightarrow> stackFrameDepth l)"
| "stackFrameDepth (ScopeContext _ p _) =
     (case p of None \<Rightarrow> 0 | Some l \<Rightarrow> stackFrameDepth l)"
| "stackFrameDepth (BlockInvocationContext _ p _ _) =
     (case p of None \<Rightarrow> 0 | Some l \<Rightarrow> stackFrameDepth l)"

definition numStackFrames :: "loc_ctx option \<Rightarrow> nat" where
  "numStackFrames LCtx = (case LCtx of None \<Rightarrow> 0 | Some l \<Rightarrow> stackFrameDepth l)"

subsection \<open>Values, regions and the program state\<close>

text \<open>
  Memory regions by kind. \<^verbatim>\<open>DeclRegion\<close> is the class of the variable, field and
  instance-variable regions.
\<close>

datatype region =
    CXXThisRegion nat loc_ctx
  | VarRegion nat
  | FieldRegion nat
  | ObjCIvarRegion nat
  | ElementRegion nat
  | CXXTempObjectRegion nat
  | SymbolicRegion nat
  | OtherRegion nat

fun isElementRegion :: "region \<Rightarrow> bool" where
  "isElementRegion (ElementRegion _) = True"
| "isElementRegion _ = False"

fun isDeclRegion :: "region \<Rightarrow> bool" where
  "isDeclRegion (VarRegion _) = True"
| "isDeclRegion (FieldRegion _) = True"
| "isDeclRegion (ObjCIvarRegion _) = True"
| "isDeclRegion _ = False"

text \<open>
  Modelled from the spec: symbolic values (\<^verbatim>\<open>SVal\<close> and \<^verbatim>\<open>SValBuilder\<close> are not
  under src/). The specification leaves their representation open and asks of a
  conjured value only that it is "parameterized by (call expression, context, result
  type, per-block occurrence count)": \<open>ConjuredSymbolVal\<close> is that value, with the
  arguments that \<^verbatim>\<open>getConjuredSymbolVal\<close> is called with.
\<close>

datatype sval =
    UnknownVal
  | UndefinedVal
  | ConcreteInt int
  | MemRegionVal region
  | ConjuredSymbolVal stmt "loc_ctx option" nat "32 word"

fun getAsRegion :: "sval \<Rightarrow> region option" where
  "getAsRegion (MemRegionVal r) = Some r"
| "getAsRegion _ = None"

definition getConjuredSymbolVal :: "stmt \<Rightarrow> loc_ctx option \<Rightarrow> nat \<Rightarrow> 32 word \<Rightarrow> sval" where
  "getConjuredSymbolVal E LCtx ResultTy Count = ConjuredSymbolVal E LCtx ResultTy Count"

text \<open>
  Modelled from the spec: the abstract program state (\<^verbatim>\<open>ProgramState\<close> is not under
  src/), with the operations the specification lists: "bind a value to an expression in
  a context, retrieve a value", and the "replay without inlining" marker of its
  side-tables. \<open>Env\<close> is the table of expression values, \<open>Store\<close> the value of each
  region.
\<close>

record program_state =
  Env :: "stmt \<times> loc_ctx option \<Rightarrow> sval"
  Store :: "region \<Rightarrow> sval"
  ReplayWithoutInlining :: "stmt option"

definition BindExpr :: "program_state \<Rightarrow> stmt \<Rightarrow> loc_ctx option \<Rightarrow> sval \<Rightarrow> program_state" where
  "BindExpr st S LCtx V = st\<lparr>Env := (Env st)((S, LCtx) := V)\<rparr>"

definition getSVal :: "program_state \<Rightarrow> stmt \<Rightarrow> loc_ctx option \<Rightarrow> sval" where
  "getSVal st S LCtx = Env st (S, LCtx)"

definition getSValLoc :: "program_state \<Rightarrow> region \<Rightarrow> sval" where
  "getSValLoc st R = Store st R"

subsection \<open>Program points, exploded nodes, the graph and the work-list\<close>

datatype stmt_point_kind =
    PreStmtKind | PreStmtPurgeDeadSymbolsKind | PostStmtPurgeDeadSymbolsKind | PostStmtKind
  | PreLoadKind | PostLoadKind | PreStoreKind | PostStoreKind | PostConditionKind
  | PostLValueKind

text \<open>
  Program points. \<open>CallEnter\<close> holds the call expression, the callee's frame and the
  caller's context; \<open>CallExitEnd\<close> the callee's frame and the caller's frame.
\<close>

datatype program_point =
    BlockEdge block_ref "block_ref option" loc_ctx
  | BlockEntrance block_ref loc_ctx
  | StmtPoint stmt_point_kind stmt loc_ctx "string option"
  | CallEnter "stmt option" loc_ctx loc_ctx
  | CallExitBegin loc_ctx
  | CallExitEnd loc_ctx "loc_ctx option"
  | PostImplicitCall decl loc_ctx

fun getLocationContext :: "program_point \<Rightarrow> loc_ctx option" where
  "getLocationContext (BlockEdge _ _ l) = Some l"
| "getLocationContext (BlockEntrance _ l) = Some l"
| "getLocationContext (StmtPoint _ _ l _) = Some l"
| "getLocationContext (CallEnter _ _ l) = Some l"
| "getLocationContext (CallExitBegin l) = Some l"
| "getLocationContext (CallExitEnd _ l) = l"
| "getLocationContext (PostImplicitCall _ l) = Some l"

text \<open>
  An exploded node. The graph is the list of its nodes, and a node pointer is the
  position of the node in it.
\<close>

record exploded_node =
  location :: program_point
  nstate :: program_state
  isSink :: bool
  preds :: "nat list"
  succs :: "nat list"

text \<open>
  Modelled from the spec: the exploded graph (\<^verbatim>\<open>ExplodedGraph\<close> is not under src/).
  "\<open>getOrCreateNode(point, state) -> (node, isNew)\<close> returns the existing node with that
  identity if present, else creates and registers a new one; \<open>addEdge(pred, succ)\<close>."
\<close>

fun lookupNode :: "exploded_node list \<Rightarrow> program_point \<Rightarrow> program_state \<Rightarrow> bool \<Rightarrow> nat option" where
  "lookupNode [] L st sink = None"
| "lookupNode (n # ns) L st sink =
     (if location n = L \<and> nstate n = st \<and> isSink n = sink then Some 0
      else map_option Suc (lookupNode ns L st sink))"

definition getNode ::
  "exploded_node list \<Rightarrow> program_point \<Rightarrow> program_state \<Rightarrow> bool \<Rightarrow> exploded_node list \<times> nat \<times> bool" where
  "getNode g L st sink =
     (case lookupNode g L st sink of
        Some i \<Rightarrow> (g, i, False)
      | None \<Rightarrow>
          (g @ [\<lparr>location = L, nstate = st, isSink = sink, preds = [], succs = []\<rparr>],
           length g, True))"

definition addPredecessor :: "nat \<Rightarrow> nat \<Rightarrow> exploded_node list \<Rightarrow> exploded_node list" where
  "addPredecessor N V g =
     (let g1 = g[N := (g ! N)\<lparr>preds := preds (g ! N) @ [V]\<rparr>]
      in g1[V := (g1 ! V)\<lparr>succs := succs (g1 ! V) @ [N]\<rparr>])"

text \<open>
  The work-list is used through \<^verbatim>\<open>enqueue\<close> alone: it is the list of the units
  enqueued, in the order of the calls. \<^verbatim>\<open>enqueue(N)\<close> leaves the block null and the
  index 0.
\<close>

datatype work_list_unit = WorkListUnit nat "block_ref option" "32 word"

definition enqueue :: "nat \<Rightarrow> work_list_unit list \<Rightarrow> work_list_unit list" where
  "enqueue N wl = wl @ [WorkListUnit N None 0]"

definition enqueueAt ::
  "nat \<Rightarrow> block_ref option \<Rightarrow> 32 word \<Rightarrow> work_list_unit list \<Rightarrow> work_list_unit list" where
  "enqueueAt N B idx wl = wl @ [WorkListUnit N B idx]"

subsection \<open>Control-flow graphs, the analysis manager, call events\<close>

record cfg_block =
  blockRef :: block_ref
  elements :: "stmt list"
  blockSuccs :: "block_ref option list"

record cfg =
  getEntry :: cfg_block
  getNumBlockIDs :: "32 word"

record cfg_build_options =
  AddImplicitDtors :: bool
  AddInitializers :: bool

text \<open>
  What an \<^verbatim>\<open>AnalysisDeclContext\<close> answers: the CFG of the declaration (null when it
  cannot be built), whether \<^verbatim>\<open>getAnalysis<RelaxedLiveVariables>()\<close> is non-null, and
  the options its CFG is built with.
\<close>

record analysis_decl_context =
  getCFG :: "cfg option"
  hasRelaxedLiveVariables :: bool
  getCFGBuildOptions :: cfg_build_options

record analysis_manager =
  shouldInlineCall :: bool
  InlineMaxStackDepth :: "32 word"
  InlineMaxFunctionSize :: "32 word"
  getAnalysisDeclContext :: "decl \<Rightarrow> analysis_decl_context"

datatype call_kind =
    CE_Function | CE_CXXMember | CE_CXXMemberOperator | CE_CXXConstructor
  | CE_CXXDestructor | CE_CXXAllocator | CE_Block | CE_ObjCMessage

datatype objc_method_family =
    OMF_None | OMF_alloc | OMF_copy | OMF_init | OMF_mutableCopy | OMF_new
  | OMF_autorelease | OMF_dealloc | OMF_finalize | OMF_release | OMF_retain
  | OMF_retainCount | OMF_self | OMF_performSelector

text \<open>
  A call event is a snapshot: it holds what its accessors answer. \<open>getProgramPoint\<close> is
  the point of the node made for a call that is not inlined.
\<close>

record call_event =
  getCallKind :: call_kind
  getRuntimeDefinition :: "decl option"
  getOriginExpr :: "stmt option"
  getCXXThisVal :: sval
  getBlockRegion :: "nat option"
  getMethodFamily :: objc_method_family
  getReceiverSVal :: sval
  getResultType :: nat
  getProgramPoint :: program_point

text \<open>
  The engine: the analysis manager, the function-summary ledger, the graph, the
  work-list, and the block, block count and statement index of the node being
  processed (\<^verbatim>\<open>currentBuilderContext\<close>, \<^verbatim>\<open>currentStmtIdx\<close>).
\<close>

record expr_engine =
  AMgr :: analysis_manager
  hasReachedMaxBlockCount :: "decl \<Rightarrow> bool"
  graph :: "exploded_node list"
  worklist :: "work_list_unit list"
  currentBlock :: "block_ref option"
  currentBlockCount :: "32 word"
  currentStmtIdx :: "32 word"

text \<open>
  The collaborators that are not under src/, as parameters: the dead-binding purge
  (from a node, with the caller's frame, the diagnostic statement and the block: the new
  graph and the cleaned nodes), the post-statement checkers (the new graph and the
  resulting nodes), and the operations of the state and of a call event.
\<close>

record collaborators =
  removeDead ::
    "exploded_node list \<Rightarrow> nat \<Rightarrow> loc_ctx option \<Rightarrow> stmt \<Rightarrow> block_ref \<Rightarrow> exploded_node list \<times> nat list"
  runCheckersForPostStmt ::
    "exploded_node list \<Rightarrow> nat \<Rightarrow> stmt \<Rightarrow> exploded_node list \<times> nat list"
  enterStackFrame :: "call_event \<Rightarrow> loc_ctx \<Rightarrow> program_state \<Rightarrow> program_state"
  invalidateRegions :: "call_event \<Rightarrow> 32 word \<Rightarrow> program_state \<Rightarrow> program_state"
  cloneWithState :: "call_event \<Rightarrow> program_state \<Rightarrow> call_event"

subsection \<open>\<^verbatim>\<open>processCallEnter\<close>\<close>

text \<open>
  The call-enter point \<open>CE\<close> is given by its callee frame. A node pointer outside the
  graph, and a null pointer that the source dereferences, are errors.
\<close>

definition processCallEnter ::
  "expr_engine \<Rightarrow> loc_ctx \<Rightarrow> nat \<Rightarrow> error + expr_engine" where
  "processCallEnter E calleeCtx Pred =
     (case getCFG (getAnalysisDeclContext (AMgr E) (getCtxDecl calleeCtx)) of
        None \<Rightarrow> Inl (NullDereference ''CalleeCFG'')
      | Some CalleeCFG \<Rightarrow>
          (let Entry = getEntry CalleeCFG in
           if elements Entry \<noteq> [] then Inl (AssertionFailed ''Entry->empty()'')
           else if length (blockSuccs Entry) \<noteq> 1
             then Inl (AssertionFailed ''Entry->succ_size() == 1'')
           else if length (graph E) \<le> Pred then Inl (NullDereference ''Pred'')
           else
             (let Succ = hd (blockSuccs Entry);
                  Loc = BlockEdge (blockRef Entry) Succ calleeCtx;
                  state = nstate (graph E ! Pred);
                  (g1, Node, isNew) = getNode (graph E) Loc state False;
                  g2 = addPredecessor Node Pred g1
              in Inr (E\<lparr>graph := g2,
                        worklist := (if isNew then enqueue Node (worklist E) else worklist E)\<rparr>))))"

subsection \<open>\<^verbatim>\<open>getLastStmt\<close>\<close>

text \<open>
  The test at the head of the first loop of \<^verbatim>\<open>getLastStmt\<close>: \<open>Some S\<close> when the loop
  breaks at this program point, with the statement \<open>S\<close> it has found (\<open>None\<close> at the
  callee's own call-enter point), and \<open>None\<close> when it goes on to the predecessor.
\<close>

fun lastStmtAt :: "program_point \<Rightarrow> loc_ctx option \<Rightarrow> stmt option option" where
  "lastStmtAt (StmtPoint _ S _ _) SF = Some (Some S)"
| "lastStmtAt (CallExitEnd callee _) SF =
     (case getCallSite callee of Some S \<Rightarrow> Some (Some S) | None \<Rightarrow> None)"
| "lastStmtAt (CallEnter _ callee _) SF = (if Some callee = SF then Some None else None)"
| "lastStmtAt _ SF = None"

text \<open>
  The first loop. It may run forever on a graph whose first-predecessor chain is a
  cycle: the result is then \<open>None\<close>. \<^verbatim>\<open>*Node->pred_begin()\<close> on a node without
  predecessor dereferences a null pointer. The result is the statement and the node the
  loop has stopped at.
\<close>

partial_function (option) findLastStmt ::
  "exploded_node list \<Rightarrow> loc_ctx option \<Rightarrow> nat option \<Rightarrow> (error + stmt option \<times> nat option) option" where
  "findLastStmt g SF Node =
     (case Node of
        None \<Rightarrow> Some (Inr (None, None))
      | Some n \<Rightarrow>
          if length g \<le> n then Some (Inl (NullDereference ''Node''))
          else (case lastStmtAt (location (g ! n)) SF of
                  Some S \<Rightarrow> Some (Inr (S, Some n))
                | None \<Rightarrow>
                    (case preds (g ! n) of
                       [] \<Rightarrow> Some (Inl (NullDereference ''pred_begin''))
                     | p # _ \<Rightarrow> findLastStmt g SF (Some p))))"

text \<open>The second loop: the enclosing basic block.\<close>

fun isBlockEdgeOf :: "program_point \<Rightarrow> loc_ctx option \<Rightarrow> bool" where
  "isBlockEdgeOf (BlockEdge _ _ l) SF = (getCurrentStackFrame l = SF)"
| "isBlockEdgeOf _ SF = False"

fun getDst :: "program_point \<Rightarrow> block_ref option" where
  "getDst (BlockEdge _ d _) = d"
| "getDst _ = None"

partial_function (option) findBlock ::
  "exploded_node list \<Rightarrow> loc_ctx option \<Rightarrow> nat option \<Rightarrow> (error + block_ref option) option" where
  "findBlock g SF Node =
     (case Node of
        None \<Rightarrow> Some (Inr None)
      | Some n \<Rightarrow>
          if length g \<le> n then Some (Inl (NullDereference ''Node''))
          else (case preds (g ! n) of
                  [] \<Rightarrow> Some (Inr None)
                | p # _ \<Rightarrow>
                    if isBlockEdgeOf (location (g ! n)) SF
                    then Some (Inr (getDst (location (g ! n))))
                    else findBlock g SF (Some p)))"

definition getLastStmt ::
  "exploded_node list \<Rightarrow> nat \<Rightarrow> (error + stmt option \<times> block_ref option) option" where
  "getLastStmt g Node =
     (if length g \<le> Node then Some (Inl (NullDereference ''Node''))
      else case getLocationContext (location (g ! Node)) of
        None \<Rightarrow> Some (Inl (NullDereference ''getLocationContext''))
      | Some l \<Rightarrow>
          (let SF = getCurrentStackFrame l in
           case findLastStmt g SF (Some Node) of
             None \<Rightarrow> None
           | Some (Inl e) \<Rightarrow> Some (Inl e)
           | Some (Inr (S, Node')) \<Rightarrow>
               (case S of
                  None \<Rightarrow> Some (Inr (None, None))
                | Some s \<Rightarrow>
                    (case findBlock g SF Node' of
                       None \<Rightarrow> None
                     | Some (Inl e) \<Rightarrow> Some (Inl e)
                     | Some (Inr Blk) \<Rightarrow> Some (Inr (Some s, Blk))))))"

subsection \<open>\<^verbatim>\<open>processCallExit\<close>\<close>

text \<open>
  Step 2 of \<^verbatim>\<open>processCallExit\<close>, the state with the return value bound: \<open>CE\<close> is the
  call site, \<open>LastSt\<close> the last statement, \<open>parent\<close> is \<^verbatim>\<open>calleeCtx->getParent()\<close> and
  \<open>LCtx\<close> the location context of the call-exit-begin node.
\<close>

definition bindCallExitValue ::
  "stmt option \<Rightarrow> stmt option \<Rightarrow> loc_ctx \<Rightarrow> loc_ctx \<Rightarrow> loc_ctx \<Rightarrow> program_state \<Rightarrow> program_state" where
  "bindCallExitValue CE LastSt calleeCtx parent LCtx state =
     (case CE of
        None \<Rightarrow> state
      | Some ce \<Rightarrow>
          (let state1 =
                 (case LastSt of
                    Some (ReturnStmt i) \<Rightarrow>
                      BindExpr state ce (Some parent) (getSVal state (ReturnStmt i) (Some LCtx))
                  | _ \<Rightarrow> state)
           in case ce of
                CXXConstructExpr i rd k \<Rightarrow>
                  BindExpr state1 ce (Some parent)
                    (getSValLoc state1 (CXXThisRegion rd calleeCtx))
              | _ \<Rightarrow> state1))"

definition retValBind :: string where
  "retValBind = ''ExprEngine : Bind Return Value''"

text \<open>
  Steps 4 and 5, the loop over the cleaned nodes. \<open>state\<close> is the state of step 2, used
  for the call-exit-begin node itself. The \<^verbatim>\<open>return\<close> at a node that is not new leaves
  the function, and so the loop.
\<close>

fun callExitEndLoop ::
  "collaborators \<Rightarrow> loc_ctx \<Rightarrow> loc_ctx option \<Rightarrow> stmt option \<Rightarrow> nat \<Rightarrow> program_state \<Rightarrow>
   nat list \<Rightarrow> expr_engine \<Rightarrow> error + expr_engine" where
  "callExitEndLoop X calleeCtx callerCtx CE CEBNode state [] E = Inr E"
| "callExitEndLoop X calleeCtx callerCtx CE CEBNode state (I # rest) E =
     (if length (graph E) \<le> I then Inl (NullDereference ''CleanedNodes'')
      else
        (let Loc = CallExitEnd calleeCtx callerCtx;
             CEEState = (if I = CEBNode then state else nstate (graph E ! I));
             (g1, CEENode, isNew) = getNode (graph E) Loc CEEState False;
             g2 = addPredecessor CEENode I g1
         in if \<not> isNew then Inr (E\<lparr>graph := g2\<rparr>)
            else
              (let (g3, Dst) =
                     (case CE of
                        Some ce \<Rightarrow> runCheckersForPostStmt X g2 CEENode ce
                      | None \<Rightarrow> (g2, [CEENode]));
                   wl = foldl (\<lambda>w PSI. enqueueAt PSI (getCallSiteBlock calleeCtx)
                                          (getIndex calleeCtx + 1) w) (worklist E) Dst
               in callExitEndLoop X calleeCtx callerCtx CE CEBNode state rest
                    (E\<lparr>graph := g3, worklist := wl\<rparr>))))"

definition processCallExit ::
  "collaborators \<Rightarrow> expr_engine \<Rightarrow> nat \<Rightarrow> (error + expr_engine) option" where
  "processCallExit X E CEBNode =
     (if length (graph E) \<le> CEBNode then Some (Inl (NullDereference ''CEBNode''))
      else case getLocationContext (location (graph E ! CEBNode)) of
        None \<Rightarrow> Some (Inl (NullDereference ''getLocationContext''))
      | Some LCtx \<Rightarrow>
      (case getCurrentStackFrame LCtx of
        None \<Rightarrow> Some (Inl (NullDereference ''calleeCtx''))
      | Some calleeCtx \<Rightarrow>
      (case getParent calleeCtx of
        None \<Rightarrow> Some (Inl (NullDereference ''getParent''))
      | Some parent \<Rightarrow>
          (let callerCtx = getCurrentStackFrame parent;
               CE = getCallSite calleeCtx;
               state0 = nstate (graph E ! CEBNode)
           in case getLastStmt (graph E) CEBNode of
                None \<Rightarrow> None
              | Some (Inl e) \<Rightarrow> Some (Inl e)
              | Some (Inr (LastSt, Blk)) \<Rightarrow>
                  (let state = bindCallExitValue CE LastSt calleeCtx parent LCtx state0 in
                   case (LastSt, Blk) of
                     (Some ls, Some blk) \<Rightarrow>
                       (let Loc = StmtPoint PostStmtKind ls calleeCtx (Some retValBind);
                            (g1, BindedRetNode, isNew) = getNode (graph E) Loc state False;
                            g2 = addPredecessor BindedRetNode CEBNode g1
                        in if \<not> isNew then Some (Inr (E\<lparr>graph := g2\<rparr>))
                           else
                             (let (g3, CleanedNodes) =
                                    removeDead X g2 BindedRetNode callerCtx ls blk
                              in Some (callExitEndLoop X calleeCtx callerCtx CE CEBNode state
                                         CleanedNodes (E\<lparr>graph := g3\<rparr>))))
                   | _ \<Rightarrow>
                       Some (callExitEndLoop X calleeCtx callerCtx CE CEBNode state
                               [CEBNode] E))))))"

subsection \<open>\<^verbatim>\<open>shouldInlineDecl\<close> and \<^verbatim>\<open>inlineCall\<close>\<close>

fun isVariadicBlockOrFunction :: "decl \<Rightarrow> bool" where
  "isVariadicBlockOrFunction (BlockDecl _ v) = v"
| "isVariadicBlockOrFunction (FunctionDecl _ v) = v"
| "isVariadicBlockOrFunction _ = False"

definition shouldInlineDecl :: "expr_engine \<Rightarrow> decl \<Rightarrow> exploded_node \<Rightarrow> bool" where
  "shouldInlineDecl E D Pred =
     (let CalleeADC = getAnalysisDeclContext (AMgr E) D in
      case getCFG CalleeADC of
        None \<Rightarrow> False
      | Some CalleeCFG \<Rightarrow>
          if getNumberStackFrames (getLocationContext (location Pred))
               = InlineMaxStackDepth (AMgr E) then False
          else if hasReachedMaxBlockCount E D then False
          else if getNumBlockIDs CalleeCFG > InlineMaxFunctionSize (AMgr E) then False
          else if isVariadicBlockOrFunction D then False
          else if \<not> hasRelaxedLiveVariables CalleeADC then False
          else True)"

fun isBlockDecl :: "decl \<Rightarrow> bool" where
  "isBlockDecl (BlockDecl _ _) = True"
| "isBlockDecl _ = False"

text \<open>
  The \<^verbatim>\<open>switch\<close> of \<^verbatim>\<open>inlineCall\<close> on the kind of the call: \<open>Inr None\<close> is its
  \<^verbatim>\<open>return false\<close>, \<open>Inr (Some P)\<close> leaves it with \<^verbatim>\<open>ParentOfCallee\<close> set to \<open>P\<close>.
  \<open>inlineCXXStructor\<close> is the case that constructors and destructors share.
\<close>

definition inlineCXXStructor ::
  "expr_engine \<Rightarrow> call_event \<Rightarrow> loc_ctx option \<Rightarrow> error + loc_ctx option option" where
  "inlineCXXStructor E Call CallerSFC =
     (case CallerSFC of
        None \<Rightarrow> Inl (NullDereference ''CallerSFC'')
      | Some sfc \<Rightarrow>
          (let ADC = getAnalysisDeclContext (AMgr E) (getCtxDecl sfc) in
           if \<not> AddImplicitDtors (getCFGBuildOptions ADC)
              \<or> \<not> AddInitializers (getCFGBuildOptions ADC) then Inr None
           else
             (let Target = getAsRegion (getCXXThisVal Call) in
              if (case Target of Some r \<Rightarrow> isElementRegion r | None \<Rightarrow> False) then Inr None
              else if getCallKind Call = CE_CXXConstructor then
                (case getOriginExpr Call of
                   Some (CXXConstructExpr i rd k) \<Rightarrow>
                     if k = CK_Complete
                        \<and> (case Target of Some r \<Rightarrow> \<not> isDeclRegion r | None \<Rightarrow> True)
                     then Inr None else Inr (Some None)
                 | _ \<Rightarrow> Inl (NullDereference ''CtorExpr''))
              else Inr (Some None))))"

definition inlineCallKind ::
  "expr_engine \<Rightarrow> call_event \<Rightarrow> decl \<Rightarrow> loc_ctx option \<Rightarrow> error + loc_ctx option option" where
  "inlineCallKind E Call D CallerSFC =
     (case getCallKind Call of
        CE_Function \<Rightarrow> Inr (Some None)
      | CE_CXXMember \<Rightarrow> Inr (Some None)
      | CE_CXXMemberOperator \<Rightarrow> Inr (Some None)
      | CE_CXXConstructor \<Rightarrow> inlineCXXStructor E Call CallerSFC
      | CE_CXXDestructor \<Rightarrow> inlineCXXStructor E Call CallerSFC
      | CE_CXXAllocator \<Rightarrow> Inr None
      | CE_Block \<Rightarrow>
          (case getBlockRegion Call of
             None \<Rightarrow>
               Inl (AssertionFailed ''If we have the block definition we should have its region'')
           | Some BR \<Rightarrow>
               if \<not> isBlockDecl D then Inl (AssertionFailed ''cast<BlockDecl>'')
               else Inr (Some (Some (BlockInvocationContext D CallerSFC D BR))))
      | CE_ObjCMessage \<Rightarrow> Inr (Some None))"

definition inlineCall ::
  "collaborators \<Rightarrow> expr_engine \<Rightarrow> call_event \<Rightarrow> nat \<Rightarrow> error + bool \<times> expr_engine" where
  "inlineCall X E Call Pred =
     (if \<not> shouldInlineCall (AMgr E) then Inr (False, E)
      else case getRuntimeDefinition Call of
        None \<Rightarrow> Inr (False, E)
      | Some D \<Rightarrow>
          if length (graph E) \<le> Pred then Inl (NullDereference ''Pred'')
          else (case getLocationContext (location (graph E ! Pred)) of
            None \<Rightarrow> Inl (NullDereference ''CurLC'')
          | Some CurLC \<Rightarrow>
              (let CallerSFC = getCurrentStackFrame CurLC in
               case inlineCallKind E Call D CallerSFC of
                 Inl e \<Rightarrow> Inl e
               | Inr None \<Rightarrow> Inr (False, E)
               | Inr (Some P) \<Rightarrow>
                   if \<not> shouldInlineDecl E D (graph E ! Pred) then Inr (False, E)
                   else
                     (let ParentOfCallee = (case P of None \<Rightarrow> CallerSFC | Some p \<Rightarrow> Some p);
                          CallE = getOriginExpr Call;
                          CalleeSFC = StackFrameContext D ParentOfCallee CallE
                                        (currentBlock E) (currentStmtIdx E);
                          Loc = CallEnter CallE CalleeSFC CurLC;
                          State = enterStackFrame X Call CalleeSFC (nstate (graph E ! Pred));
                          (g1, N, isNew) = getNode (graph E) Loc State False;
                          g2 = addPredecessor N Pred g1
                      in Inr (True,
                              E\<lparr>graph := g2,
                                worklist := (if isNew then enqueue N (worklist E)
                                             else worklist E)\<rparr>)))))"

subsection \<open>The opaque path: \<^verbatim>\<open>getInlineFailedState\<close>, \<^verbatim>\<open>bindReturnValue\<close>, \<^verbatim>\<open>defaultEvalCall\<close>\<close>

definition getInlineFailedState ::
  "program_state \<Rightarrow> stmt option \<Rightarrow> error + program_state option" where
  "getInlineFailedState State CallE =
     (case ReplayWithoutInlining State of
        None \<Rightarrow> Inr None
      | Some ReplayState \<Rightarrow>
          if Some ReplayState \<noteq> CallE then Inl (AssertionFailed ''Backtracked to the wrong call.'')
          else Inr (Some (State\<lparr>ReplayWithoutInlining := None\<rparr>)))"

definition bindReturnValue ::
  "expr_engine \<Rightarrow> call_event \<Rightarrow> loc_ctx option \<Rightarrow> program_state \<Rightarrow> program_state" where
  "bindReturnValue Eng Call LCtx State =
     (case getOriginExpr Call of
        None \<Rightarrow> State
      | Some E \<Rightarrow>
          if getCallKind Call = CE_ObjCMessage
             \<and> getMethodFamily Call \<in> {OMF_autorelease, OMF_retain, OMF_self}
          then BindExpr State E LCtx (getReceiverSVal Call)
          else if getCallKind Call \<noteq> CE_ObjCMessage \<and> getCallKind Call = CE_CXXConstructor
          then BindExpr State E LCtx (getCXXThisVal Call)
          else
            (let ResultTy = getResultType Call;
                 Count = currentBlockCount Eng;
                 R = getConjuredSymbolVal E LCtx ResultTy Count
             in BindExpr State E LCtx R))"

text \<open>
  Modelled from the spec: the node builder (\<^verbatim>\<open>NodeBuilder\<close> is not under src/). The
  default handling is to "emit one successor node at a call-post program point", by the
  get-or-create contract of the graph; the builder keeps the frontier, the nodes still
  to be processed: \<^verbatim>\<open>takeNodes\<close> removes a node from it, and a generated node replaces
  its predecessor in it when it is new.
\<close>

definition takeNodes :: "nat \<Rightarrow> nat list \<Rightarrow> nat list" where
  "takeNodes N Frontier = removeAll N Frontier"

definition generateNode ::
  "program_point \<Rightarrow> program_state \<Rightarrow> nat \<Rightarrow> exploded_node list \<times> nat list
   \<Rightarrow> exploded_node list \<times> nat list" where
  "generateNode PP State Pred gf =
     (let (g1, N, isNew) = getNode (fst gf) PP State False;
          g2 = addPredecessor N Pred g1;
          fr = removeAll Pred (snd gf)
      in (g2, if isNew then fr @ [N] else fr))"

text \<open>
  The last lines of \<^verbatim>\<open>defaultEvalCall\<close>, reached when the call is not inlined, from
  the state \<open>State\<close>.
\<close>

definition evalCallOpaque ::
  "collaborators \<Rightarrow> expr_engine \<Rightarrow> nat list \<Rightarrow> nat \<Rightarrow> call_event \<Rightarrow> program_state
   \<Rightarrow> expr_engine \<times> nat list" where
  "evalCallOpaque X E Bldr Pred Call State =
     (let Count = currentBlockCount E;
          State1 = invalidateRegions X Call Count State;
          State2 = bindReturnValue E Call (getLocationContext (location (graph E ! Pred))) State1;
          (g, fr) = generateNode (getProgramPoint Call) State2 Pred (graph E, Bldr)
      in (E\<lparr>graph := g\<rparr>, fr))"

definition defaultEvalCall ::
  "collaborators \<Rightarrow> expr_engine \<Rightarrow> nat list \<Rightarrow> nat \<Rightarrow> call_event
   \<Rightarrow> error + expr_engine \<times> nat list" where
  "defaultEvalCall X E Bldr Pred CallTemplate =
     (if length (graph E) \<le> Pred then Inl (NullDereference ''Pred'')
      else
        (let State = nstate (graph E ! Pred);
             Call = cloneWithState X CallTemplate State;
             CallE = getOriginExpr Call
         in case getInlineFailedState State CallE of
              Inl e \<Rightarrow> Inl e
            | Inr (Some InlinedFailedState) \<Rightarrow>
                Inr (evalCallOpaque X E Bldr Pred Call InlinedFailedState)
            | Inr None \<Rightarrow>
                (case inlineCall X E Call Pred of
                   Inl e \<Rightarrow> Inl e
                 | Inr (True, E') \<Rightarrow> Inr (E', takeNodes Pred Bldr)
                 | Inr (False, E') \<Rightarrow> Inr (evalCallOpaque X E' Bldr Pred Call State))))"

subsection \<open>Graphs that only grow\<close>

text \<open>
  The specification's contract of the graph: "no operation removes nodes once added",
  and a node is "never mutated after creation except to append predecessor/successor
  edges". \<open>graphExtends g g'\<close> says that \<open>g'\<close> comes from \<open>g\<close> in this way, and
  \<open>collaboratorsExtend\<close> that the purge, from a node of the graph, and the checkers
  keep to the contract, and that the purge hands back nodes of the graph it returns.
\<close>

definition graphExtends :: "exploded_node list \<Rightarrow> exploded_node list \<Rightarrow> bool" where
  "graphExtends g g' =
     (length g \<le> length g' \<and>
      (\<forall>i < length g.
          location (g' ! i) = location (g ! i) \<and> nstate (g' ! i) = nstate (g ! i)
          \<and> isSink (g' ! i) = isSink (g ! i)
          \<and> set (preds (g ! i)) \<subseteq> set (preds (g' ! i))))"

definition collaboratorsExtend :: "collaborators \<Rightarrow> bool" where
  "collaboratorsExtend X =
     ((\<forall>g n c s b. n < length g \<longrightarrow>
          graphExtends g (fst (removeDead X g n c s b))
          \<and> (\<forall>i \<in> set (snd (removeDead X g n c s b)).
                 i < length (fst (removeDead X g n c s b))))
      \<and> (\<forall>g n s. graphExtends g (fst (runCheckersForPostStmt X g n s))))"


text \<open>
  \<open>hasNode g L st p\<close>: the graph \<open>g\<close> has a node at the point \<open>L\<close> with the state
  \<open>st\<close> and with \<open>p\<close> among its predecessors.
\<close>

definition hasNode ::
  "exploded_node list \<Rightarrow> program_point \<Rightarrow> program_state \<Rightarrow> nat \<Rightarrow> bool" where
  "hasNode g L st p =
     (\<exists>N < length g. location (g ! N) = L \<and> nstate (g ! N) = st \<and> p \<in> set (preds (g ! N)))"

subsection \<open>A worked scenario\<close>

text \<open>
  The scenario of the specification: the callee \<^verbatim>\<open>int f() { return 42; }\<close> and the
  caller \<^verbatim>\<open>int x = f();\<close>, with the call in block 3 of the caller at index 0. The
  callee's exploration is the path call-enter, block edge, return statement,
  call-exit-begin.
\<close>

definition ex_main :: decl where
  "ex_main = FunctionDecl 1 False"

definition ex_f :: decl where
  "ex_f = FunctionDecl 2 False"

definition ex_call :: stmt where
  "ex_call = CallExpr 20"

definition ex_ret :: stmt where
  "ex_ret = ReturnStmt 10"

definition ex_topCtx :: loc_ctx where
  "ex_topCtx = StackFrameContext ex_main None None None 0"

definition ex_calleeCtx :: loc_ctx where
  "ex_calleeCtx = StackFrameContext ex_f (Some ex_topCtx) (Some ex_call) (Some 3) 0"

definition ex_state0 :: program_state where
  "ex_state0 = \<lparr>Env = (\<lambda>_. UnknownVal), Store = (\<lambda>_. UnknownVal), ReplayWithoutInlining = None\<rparr>"

definition ex_stateRet :: program_state where
  "ex_stateRet = BindExpr ex_state0 ex_ret (Some ex_calleeCtx) (ConcreteInt 42)"

definition ex_cfg :: cfg where
  "ex_cfg = \<lparr>getEntry = \<lparr>blockRef = 0, elements = [], blockSuccs = [Some 1]\<rparr>,
             getNumBlockIDs = 3\<rparr>"

definition ex_adc :: analysis_decl_context where
  "ex_adc = \<lparr>getCFG = Some ex_cfg, hasRelaxedLiveVariables = True,
             getCFGBuildOptions = \<lparr>AddImplicitDtors = True, AddInitializers = True\<rparr>\<rparr>"

definition ex_amgr :: analysis_manager where
  "ex_amgr = \<lparr>shouldInlineCall = True, InlineMaxStackDepth = 5, InlineMaxFunctionSize = 200,
              getAnalysisDeclContext = (\<lambda>_. ex_adc)\<rparr>"

definition ex_node :: "program_point \<Rightarrow> program_state \<Rightarrow> nat list \<Rightarrow> nat list \<Rightarrow> exploded_node" where
  "ex_node L st ps ss = \<lparr>location = L, nstate = st, isSink = False, preds = ps, succs = ss\<rparr>"

definition ex_engine :: "exploded_node list \<Rightarrow> expr_engine" where
  "ex_engine g = \<lparr>AMgr = ex_amgr, hasReachedMaxBlockCount = (\<lambda>_. False), graph = g,
                  worklist = [], currentBlock = Some 3, currentBlockCount = 1,
                  currentStmtIdx = 0\<rparr>"

text \<open>The caller's graph before the call, and the callee's path at its exit.\<close>

definition ex_callerGraph :: "exploded_node list" where
  "ex_callerGraph = [ex_node (StmtPoint PreStmtKind ex_call ex_topCtx None) ex_state0 [] []]"

definition ex_calleeGraph :: "exploded_node list" where
  "ex_calleeGraph =
     [ex_node (CallEnter (Some ex_call) ex_calleeCtx ex_topCtx) ex_state0 [] [1],
      ex_node (BlockEdge 0 (Some 1) ex_calleeCtx) ex_state0 [0] [2],
      ex_node (StmtPoint PostStmtKind ex_ret ex_calleeCtx None) ex_stateRet [1] [3],
      ex_node (CallExitBegin ex_calleeCtx) ex_stateRet [2] []]"

text \<open>
  Collaborators that change nothing: the purge and the checkers hand back the node they
  are given, the state operations leave the state as it is.
\<close>

definition ex_collab :: collaborators where
  "ex_collab = \<lparr>removeDead = (\<lambda>g n c s b. (g, [n])),
                runCheckersForPostStmt = (\<lambda>g n s. (g, [n])),
                enterStackFrame = (\<lambda>c l st. st),
                invalidateRegions = (\<lambda>c n st. st),
                cloneWithState = (\<lambda>c st. c)\<rparr>"

definition ex_callEvent :: call_event where
  "ex_callEvent = \<lparr>getCallKind = CE_Function, getRuntimeDefinition = Some ex_f,
                   getOriginExpr = Some ex_call, getCXXThisVal = UndefinedVal,
                   getBlockRegion = None, getMethodFamily = OMF_None,
                   getReceiverSVal = UndefinedVal, getResultType = 0,
                   getProgramPoint = StmtPoint PostStmtKind ex_call ex_topCtx None\<rparr>"

text \<open>The graph when the call is entered: the caller's node and the call-enter node.\<close>

definition ex_enterGraph :: "exploded_node list" where
  "ex_enterGraph =
     [ex_node (StmtPoint PreStmtKind ex_call ex_topCtx None) ex_state0 [] [1],
      ex_node (CallEnter (Some ex_call) ex_calleeCtx ex_topCtx) ex_state0 [0] []]"

text \<open>The caller's graph when the state carries the replay marker for the call.\<close>

definition ex_replayGraph :: "exploded_node list" where
  "ex_replayGraph =
     [ex_node (StmtPoint PreStmtKind ex_call ex_topCtx None)
        (ex_state0\<lparr>ReplayWithoutInlining := Some ex_call\<rparr>) [] []]"

text \<open>
  A complete-object constructor call and an allocator call at the same site; the
  constructor's receiver is given with the event.
\<close>

definition ex_ctorEvent :: "sval \<Rightarrow> call_event" where
  "ex_ctorEvent this =
     ex_callEvent\<lparr>getCallKind := CE_CXXConstructor,
                  getOriginExpr := Some (CXXConstructExpr 21 5 CK_Complete),
                  getCXXThisVal := this\<rparr>"

definition ex_allocatorEvent :: call_event where
  "ex_allocatorEvent = ex_callEvent\<lparr>getCallKind := CE_CXXAllocator\<rparr>"

text \<open>The state of the scenario with the return value bound to the call.\<close>

definition ex_boundState :: program_state where
  "ex_boundState = BindExpr ex_stateRet ex_call (Some ex_topCtx) (ConcreteInt 42)"

text \<open>
  A purge that drops every binding of the callee's frame and keeps the others: it makes
  one cleaned node, at the purge point of the diagnostic statement.
\<close>

definition ex_dropCallee :: "program_state \<Rightarrow> program_state" where
  "ex_dropCallee st =
     st\<lparr>Env := (\<lambda>k. if snd k = Some ex_calleeCtx then UnknownVal else Env st k)\<rparr>"

definition ex_purgeCollab :: collaborators where
  "ex_purgeCollab =
     ex_collab\<lparr>removeDead := (\<lambda>g n c s b.
        (g @ [ex_node (StmtPoint PostStmtPurgeDeadSymbolsKind s ex_calleeCtx None)
                (ex_dropCallee (nstate (g ! n))) [n] []],
         [length g]))\<rparr>"

text \<open>
  A constructor without statements, \<^verbatim>\<open>struct A { A() {} }; A a;\<close>: the callee's path
  is the call-enter node, the block edge and the call-exit-begin node, and \<^verbatim>\<open>this\<close>
  holds the address of the variable.
\<close>

definition ex_ctorExpr :: stmt where
  "ex_ctorExpr = CXXConstructExpr 21 5 CK_Complete"

definition ex_ctorCtx :: loc_ctx where
  "ex_ctorCtx = StackFrameContext (FunctionDecl 4 False) (Some ex_topCtx) (Some ex_ctorExpr)
                  (Some 3) 0"

definition ex_ctorState :: program_state where
  "ex_ctorState =
     ex_state0\<lparr>Store := (\<lambda>_. UnknownVal)(CXXThisRegion 5 ex_ctorCtx := MemRegionVal (VarRegion 0))\<rparr>"

definition ex_ctorGraph :: "exploded_node list" where
  "ex_ctorGraph =
     [ex_node (CallEnter (Some ex_ctorExpr) ex_ctorCtx ex_topCtx) ex_ctorState [] [1],
      ex_node (BlockEdge 0 (Some 1) ex_ctorCtx) ex_ctorState [0] [2],
      ex_node (CallExitBegin ex_ctorCtx) ex_ctorState [1] []]"

definition ex_ctorAfter :: expr_engine where
  "ex_ctorAfter =
     (ex_engine
        [ex_node (CallEnter (Some ex_ctorExpr) ex_ctorCtx ex_topCtx) ex_ctorState [] [1],
         ex_node (BlockEdge 0 (Some 1) ex_ctorCtx) ex_ctorState [0] [2],
         ex_node (CallExitBegin ex_ctorCtx) ex_ctorState [1] [3],
         ex_node (CallExitEnd ex_ctorCtx (Some ex_topCtx))
           (BindExpr ex_ctorState ex_ctorExpr (Some ex_topCtx) (MemRegionVal (VarRegion 0)))
           [2] []])
     \<lparr>worklist := [WorkListUnit 3 (Some 3) 1]\<rparr>"

text \<open>
  A function without statements, \<^verbatim>\<open>void g() {}\<close>, called at the same site.
\<close>

definition ex_emptyGraph :: "exploded_node list" where
  "ex_emptyGraph =
     [ex_node (CallEnter (Some ex_call) ex_calleeCtx ex_topCtx) ex_state0 [] [1],
      ex_node (BlockEdge 0 (Some 1) ex_calleeCtx) ex_state0 [0] [2],
      ex_node (CallExitBegin ex_calleeCtx) ex_state0 [1] []]"

text \<open>
  Two paths of a callee with two return statements that meet after the purge. An
  earlier path, through the return statement 11, has left its cleaned node and the
  call-exit-end node with the state \<open>ex_purged\<close>. For the path of the scenario the
  purge hands back two cleaned nodes: one with the state \<open>ex_purged\<close>, one with the
  state \<open>ex_purged2\<close>, as when a checker splits the state on the dead symbols.
\<close>

definition ex_purged :: program_state where
  "ex_purged = BindExpr ex_state0 ex_call (Some ex_topCtx) (ConcreteInt 42)"

definition ex_purged2 :: program_state where
  "ex_purged2 = ex_purged\<lparr>Store := (\<lambda>_. UnknownVal)(VarRegion 9 := ConcreteInt 0)\<rparr>"

definition ex_convergedGraph :: "exploded_node list" where
  "ex_convergedGraph =
     [ex_node (CallEnter (Some ex_call) ex_calleeCtx ex_topCtx) ex_state0 [] [1],
      ex_node (BlockEdge 0 (Some 1) ex_calleeCtx) ex_state0 [0] [2],
      ex_node (StmtPoint PostStmtKind ex_ret ex_calleeCtx None) ex_stateRet [1] [3],
      ex_node (CallExitBegin ex_calleeCtx) ex_stateRet [2] [],
      ex_node (StmtPoint PostStmtPurgeDeadSymbolsKind (ReturnStmt 11) ex_calleeCtx None)
        ex_purged [] [5],
      ex_node (CallExitEnd ex_calleeCtx (Some ex_topCtx)) ex_purged [4] []]"

definition ex_splitCollab :: collaborators where
  "ex_splitCollab =
     ex_collab\<lparr>removeDead := (\<lambda>g n c s b.
        (g @ [ex_node (StmtPoint PostStmtPurgeDeadSymbolsKind s ex_calleeCtx None)
                ex_purged [n] [],
              ex_node (StmtPoint PostStmtPurgeDeadSymbolsKind s ex_calleeCtx None)
                ex_purged2 [n] []],
         [length g, Suc (length g)]))\<rparr>"

definition ex_convergedAfter :: expr_engine where
  "ex_convergedAfter =
     ex_engine
       [ex_node (CallEnter (Some ex_call) ex_calleeCtx ex_topCtx) ex_state0 [] [1],
        ex_node (BlockEdge 0 (Some 1) ex_calleeCtx) ex_state0 [0] [2],
        ex_node (StmtPoint PostStmtKind ex_ret ex_calleeCtx None) ex_stateRet [1] [3],
        ex_node (CallExitBegin ex_calleeCtx) ex_stateRet [2] [6],
        ex_node (StmtPoint PostStmtPurgeDeadSymbolsKind (ReturnStmt 11) ex_calleeCtx None)
          ex_purged [] [5],
        ex_node (CallExitEnd ex_calleeCtx (Some ex_topCtx)) ex_purged [4, 7] [],
        ex_node (StmtPoint PostStmtKind ex_ret ex_calleeCtx (Some retValBind))
          ex_boundState [3] [],
        ex_node (StmtPoint PostStmtPurgeDeadSymbolsKind ex_ret ex_calleeCtx None)
          ex_purged [6] [5],
        ex_node (StmtPoint PostStmtPurgeDeadSymbolsKind ex_ret ex_calleeCtx None)
          ex_purged2 [6] []]"

section \<open>Properties\<close>

lemmas ex_defs = ex_main_def ex_f_def ex_call_def ex_ret_def ex_topCtx_def ex_calleeCtx_def
  ex_state0_def ex_stateRet_def ex_cfg_def ex_adc_def ex_amgr_def ex_node_def ex_engine_def
  ex_callerGraph_def ex_calleeGraph_def ex_collab_def ex_callEvent_def ex_enterGraph_def
  ex_replayGraph_def ex_ctorEvent_def ex_allocatorEvent_def ex_boundState_def
  ex_ctorExpr_def ex_ctorCtx_def ex_ctorState_def ex_ctorGraph_def
  ex_ctorAfter_def ex_purged_def ex_purged2_def ex_convergedGraph_def ex_splitCollab_def
  ex_convergedAfter_def ex_emptyGraph_def ex_dropCallee_def ex_purgeCollab_def

subsection \<open>The template-argument comparison\<close>

text \<open>
  Claim C9, as stated: two argument expressions whose values are not a known integral
  or declaration reference (or another representable shape) compare as "not equal",
  without an error. It fails: when an argument cannot be evaluated the comparison stops
  at the assertion "Template arguments must be known at compile time.", and when both
  values have the same kind outside integer, lvalue and member pointer it reaches
  \<^verbatim>\<open>llvm_unreachable\<close>.
\<close>

theorem IsEqualExpr_unknown_counterexample:
  "IsEqualExpr 32 (Some (ValueExpr 1 None)) (Some (ValueExpr 2 (Some AP_Float)))
     = Inl (AssertionFailed ''Template arguments must be known at compile time.'')
   \<and> IsEqualExpr 32 (Some (ValueExpr 1 (Some AP_Float))) (Some (ValueExpr 2 (Some AP_Float)))
     = Inl (Unreachable ''Unknown template argument expression.'')"
  by (simp add: IsEqualExpr_def compareValues_def)

text \<open>
  Claim C9, amended: \<^verbatim>\<open>IsEqualExpr\<close> answers "not equal" without an error when
  exactly one of the two expressions is null; when the two are distinct expressions and
  exactly one of them is, without its parentheses, a declaration reference; and when
  the two are distinct, neither is a declaration reference and both evaluate, to values
  of different kinds. When the two are distinct and neither is a declaration reference,
  the comparison is a failed assertion if one of them cannot be evaluated, and
  unreachable code if both evaluate to values of the same kind other than integer,
  lvalue or member pointer: neither is "not equal".
\<close>

theorem IsEqualExpr_mismatch:
  "((FromExpr = None) \<noteq> (ToExpr = None) \<longrightarrow> IsEqualExpr w FromExpr ToExpr = Inr False)
   \<and> (f \<noteq> t \<and> isDeclRefExpr (IgnoreParens f) \<noteq> isDeclRefExpr (IgnoreParens t)
        \<longrightarrow> IsEqualExpr w (Some f) (Some t) = Inr False)
   \<and> (f \<noteq> t \<and> \<not> isDeclRefExpr (IgnoreParens f) \<and> \<not> isDeclRefExpr (IgnoreParens t)
        \<and> EvaluateAsRValue (IgnoreParens f) = Some u
        \<and> EvaluateAsRValue (IgnoreParens t) = Some v \<and> getKind u \<noteq> getKind v
        \<longrightarrow> IsEqualExpr w (Some f) (Some t) = Inr False)
   \<and> (f \<noteq> t \<and> \<not> isDeclRefExpr (IgnoreParens f) \<and> \<not> isDeclRefExpr (IgnoreParens t)
        \<and> (EvaluateAsRValue (IgnoreParens f) = None \<or> EvaluateAsRValue (IgnoreParens t) = None)
        \<longrightarrow> IsEqualExpr w (Some f) (Some t)
             = Inl (AssertionFailed ''Template arguments must be known at compile time.''))
   \<and> (f \<noteq> t \<and> \<not> isDeclRefExpr (IgnoreParens f) \<and> \<not> isDeclRefExpr (IgnoreParens t)
        \<and> EvaluateAsRValue (IgnoreParens f) = Some u
        \<and> EvaluateAsRValue (IgnoreParens t) = Some v \<and> getKind u = getKind v
        \<and> getKind u \<notin> {K_Int, K_LValue, K_MemberPointer}
        \<longrightarrow> IsEqualExpr w (Some f) (Some t)
             = Inl (Unreachable ''Unknown template argument expression.''))"
proof (intro conjI impI)
  assume "(FromExpr = None) \<noteq> (ToExpr = None)"
  then show "IsEqualExpr w FromExpr ToExpr = Inr False"
    by (cases FromExpr; cases ToExpr; simp add: IsEqualExpr_def)
next
  assume "f \<noteq> t \<and> isDeclRefExpr (IgnoreParens f) \<noteq> isDeclRefExpr (IgnoreParens t)"
  then show "IsEqualExpr w (Some f) (Some t) = Inr False"
    by (auto simp add: IsEqualExpr_def Let_def)
next
  assume "f \<noteq> t \<and> \<not> isDeclRefExpr (IgnoreParens f) \<and> \<not> isDeclRefExpr (IgnoreParens t)
        \<and> EvaluateAsRValue (IgnoreParens f) = Some u
        \<and> EvaluateAsRValue (IgnoreParens t) = Some v \<and> getKind u \<noteq> getKind v"
  then show "IsEqualExpr w (Some f) (Some t) = Inr False"
    by (simp add: IsEqualExpr_def Let_def)
next
  assume "f \<noteq> t \<and> \<not> isDeclRefExpr (IgnoreParens f) \<and> \<not> isDeclRefExpr (IgnoreParens t)
        \<and> (EvaluateAsRValue (IgnoreParens f) = None \<or> EvaluateAsRValue (IgnoreParens t) = None)"
  then show "IsEqualExpr w (Some f) (Some t)
             = Inl (AssertionFailed ''Template arguments must be known at compile time.'')"
    by (auto simp add: IsEqualExpr_def Let_def split: option.splits)
next
  assume "f \<noteq> t \<and> \<not> isDeclRefExpr (IgnoreParens f) \<and> \<not> isDeclRefExpr (IgnoreParens t)
        \<and> EvaluateAsRValue (IgnoreParens f) = Some u
        \<and> EvaluateAsRValue (IgnoreParens t) = Some v \<and> getKind u = getKind v
        \<and> getKind u \<notin> {K_Int, K_LValue, K_MemberPointer}"
  then show "IsEqualExpr w (Some f) (Some t)
             = Inl (Unreachable ''Unknown template argument expression.'')"
    by (cases u; cases v; simp add: IsEqualExpr_def Let_def compareValues_def)
qed

theorem IsEqualExpr_mismatch_witness:
  "IsEqualExpr 32 None (Some (DeclRefExpr 1 7)) = Inr False
   \<and> IsEqualExpr 32 (Some (DeclRefExpr 1 7)) (Some (ParenExpr 3 (ValueExpr 2 None))) = Inr False
   \<and> IsEqualExpr 32 (Some (ValueExpr 1 (Some (AP_LValue NullBase))))
        (Some (ValueExpr 2 (Some (AP_MemberPointer None)))) = Inr False
   \<and> IsEqualExpr 32 (Some (ValueExpr 1 None)) (Some (ValueExpr 2 (Some AP_Float)))
       = Inl (AssertionFailed ''Template arguments must be known at compile time.'')
   \<and> IsEqualExpr 32 (Some (ValueExpr 1 (Some AP_Float))) (Some (ValueExpr 2 (Some AP_Float)))
       = Inl (Unreachable ''Unknown template argument expression.'')"
  using IsEqualExpr_mismatch [of None "Some (DeclRefExpr 1 7)" 32 "DeclRefExpr 1 7"
      "ParenExpr 3 (ValueExpr 2 None)"]
    IsEqualExpr_mismatch [of None None 32 "ValueExpr 1 (Some (AP_LValue NullBase))"
      "ValueExpr 2 (Some (AP_MemberPointer None))" "AP_LValue NullBase" "AP_MemberPointer None"]
    IsEqualExpr_mismatch [of None None 32 "ValueExpr 1 None" "ValueExpr 2 (Some AP_Float)"]
    IsEqualExpr_mismatch [of None None 32 "ValueExpr 1 (Some AP_Float)"
      "ValueExpr 2 (Some AP_Float)" AP_Float AP_Float]
  by simp

subsection \<open>The graph\<close>

lemma graphExtends_refl: "graphExtends g g"
  by (simp add: graphExtends_def)

lemma graphExtends_trans:
  assumes a: "graphExtends g g'" and b: "graphExtends g' g''"
  shows "graphExtends g g''"
proof -
  have len: "length g \<le> length g'" "length g' \<le> length g''"
    using a b by (simp_all add: graphExtends_def)
  have step: "location (g'' ! i) = location (g ! i) \<and> nstate (g'' ! i) = nstate (g ! i)
          \<and> isSink (g'' ! i) = isSink (g ! i) \<and> set (preds (g ! i)) \<subseteq> set (preds (g'' ! i))"
    if "i < length g" for i
  proof -
    have i': "i < length g'" using that len by simp
    from a that have 1: "location (g' ! i) = location (g ! i)" "nstate (g' ! i) = nstate (g ! i)"
      "isSink (g' ! i) = isSink (g ! i)" "set (preds (g ! i)) \<subseteq> set (preds (g' ! i))"
      by (simp_all add: graphExtends_def)
    from b i' have 2: "location (g'' ! i) = location (g' ! i)" "nstate (g'' ! i) = nstate (g' ! i)"
      "isSink (g'' ! i) = isSink (g' ! i)" "set (preds (g' ! i)) \<subseteq> set (preds (g'' ! i))"
      by (simp_all add: graphExtends_def)
    from 1 2 show ?thesis by auto
  qed
  show ?thesis unfolding graphExtends_def using len step by auto
qed

lemma lookupNode_Some:
  "lookupNode g L st s = Some i \<Longrightarrow>
     i < length g \<and> location (g ! i) = L \<and> nstate (g ! i) = st \<and> isSink (g ! i) = s"
  by (induction g arbitrary: i) (auto split: if_splits)

lemma lookupNode_None:
  "lookupNode g L st s = None \<Longrightarrow> i < length g \<Longrightarrow>
     \<not> (location (g ! i) = L \<and> nstate (g ! i) = st \<and> isSink (g ! i) = s)"
proof (induction g arbitrary: i)
  case Nil
  then show ?case by simp
next
  case (Cons n ns)
  then show ?case by (cases i) (auto split: if_splits)
qed

lemma getNode_props:
  assumes "getNode g L st s = (g1, N, isNew)"
  shows "N < length g1" "location (g1 ! N) = L" "nstate (g1 ! N) = st" "isSink (g1 ! N) = s"
    "graphExtends g g1"
    "isNew \<Longrightarrow> N = length g \<and> g1 = g @ [\<lparr>location = L, nstate = st, isSink = s, preds = [], succs = []\<rparr>]"
    "\<not> isNew \<Longrightarrow> g1 = g \<and> N < length g"
  using assms
  by (auto simp: getNode_def graphExtends_def nth_append dest: lookupNode_Some split: option.splits)

lemma getNode_isNew:
  assumes "getNode g L st s = (g1, N, isNew)"
  shows "isNew \<longleftrightarrow> (\<forall>i < length g. \<not> (location (g ! i) = L \<and> nstate (g ! i) = st \<and> isSink (g ! i) = s))"
  using assms
  by (auto simp: getNode_def dest: lookupNode_Some lookupNode_None split: option.splits)

lemma addPredecessor_length [simp]: "length (addPredecessor N V g) = length g"
  by (simp add: addPredecessor_def Let_def)

lemma addPredecessor_nth:
  assumes "i < length g"
  shows "location (addPredecessor N V g ! i) = location (g ! i)"
    "nstate (addPredecessor N V g ! i) = nstate (g ! i)"
    "isSink (addPredecessor N V g ! i) = isSink (g ! i)"
    "preds (addPredecessor N V g ! i) = (if i = N then preds (g ! i) @ [V] else preds (g ! i))"
  using assms by (cases "i = N"; cases "i = V"; cases "N = V"; simp add: addPredecessor_def Let_def)+

lemma addPredecessor_extends: "graphExtends g (addPredecessor N V g)"
  by (auto simp: graphExtends_def addPredecessor_nth)

subsection \<open>Entering a call\<close>

text \<open>
  Claim C3: \<^verbatim>\<open>processCallEnter\<close> with a callee entry block that is not empty or
  has not exactly one successor is a failed assertion. With an empty entry block of
  one successor, the node it gets or creates is at the block edge from the entry block
  to that successor, in the callee's stack frame, carries the state of \<open>Pred\<close> as it
  is, has \<open>Pred\<close> among its predecessors, and is enqueued if and only if it is new,
  that is if the graph had no node of that point and state.
\<close>

theorem processCallEnter_node:
  assumes cfg: "getCFG (getAnalysisDeclContext (AMgr E) (getCtxDecl calleeCtx)) = Some CalleeCFG"
  shows "(elements (getEntry CalleeCFG) \<noteq> [] \<or> length (blockSuccs (getEntry CalleeCFG)) \<noteq> 1
            \<longrightarrow> (\<exists>m. processCallEnter E calleeCtx Pred = Inl (AssertionFailed m)))
       \<and> (elements (getEntry CalleeCFG) = [] \<and> blockSuccs (getEntry CalleeCFG) = [Succ]
            \<and> Pred < length (graph E)
          \<longrightarrow> (\<exists>E' g1 Node isNew.
                processCallEnter E calleeCtx Pred = Inr E'
                \<and> getNode (graph E) (BlockEdge (blockRef (getEntry CalleeCFG)) Succ calleeCtx)
                     (nstate (graph E ! Pred)) False = (g1, Node, isNew)
                \<and> Node < length (graph E')
                \<and> location (graph E' ! Node)
                     = BlockEdge (blockRef (getEntry CalleeCFG)) Succ calleeCtx
                \<and> nstate (graph E' ! Node) = nstate (graph E ! Pred)
                \<and> Pred \<in> set (preds (graph E' ! Node))
                \<and> worklist E'
                     = (if isNew then worklist E @ [WorkListUnit Node None 0] else worklist E)
                \<and> isNew = (\<forall>i < length (graph E).
                     \<not> (location (graph E ! i)
                          = BlockEdge (blockRef (getEntry CalleeCFG)) Succ calleeCtx
                        \<and> nstate (graph E ! i) = nstate (graph E ! Pred)
                        \<and> \<not> isSink (graph E ! i)))))"
proof (intro conjI impI)
  assume "elements (getEntry CalleeCFG) \<noteq> [] \<or> length (blockSuccs (getEntry CalleeCFG)) \<noteq> 1"
  then show "\<exists>m. processCallEnter E calleeCtx Pred = Inl (AssertionFailed m)"
    using cfg by (auto simp: processCallEnter_def Let_def)
next
  assume a: "elements (getEntry CalleeCFG) = [] \<and> blockSuccs (getEntry CalleeCFG) = [Succ]
            \<and> Pred < length (graph E)"
  let ?Loc = "BlockEdge (blockRef (getEntry CalleeCFG)) Succ calleeCtx"
  let ?st = "nstate (graph E ! Pred)"
  obtain g1 Node isNew where gn: "getNode (graph E) ?Loc ?st False = (g1, Node, isNew)"
    by (metis prod_cases3)
  note p = getNode_props [OF gn]
  have len: "length (graph E) \<le> length g1" using p(5) by (simp add: graphExtends_def)
  then have pred: "Pred < length g1" using a by simp
  let ?g2 = "addPredecessor Node Pred g1"
  let ?E' = "E\<lparr>graph := ?g2, worklist := (if isNew then enqueue Node (worklist E) else worklist E)\<rparr>"
  have r: "processCallEnter E calleeCtx Pred = Inr ?E'"
    using cfg a gn by (simp add: processCallEnter_def Let_def)
  have "Node < length (graph ?E')" using p(1) by simp
  moreover have "location (graph ?E' ! Node) = ?Loc" "nstate (graph ?E' ! Node) = ?st"
    "Pred \<in> set (preds (graph ?E' ! Node))"
    using p(1-3) by (simp_all add: addPredecessor_nth)
  moreover have "worklist ?E' = (if isNew then worklist E @ [WorkListUnit Node None 0] else worklist E)"
    by (simp add: enqueue_def)
  moreover have "isNew = (\<forall>i < length (graph E).
                     \<not> (location (graph E ! i) = ?Loc \<and> nstate (graph E ! i) = ?st
                        \<and> \<not> isSink (graph E ! i)))"
    using getNode_isNew [OF gn] by simp
  ultimately show "\<exists>E' g1 Node isNew.
                processCallEnter E calleeCtx Pred = Inr E'
                \<and> getNode (graph E) ?Loc ?st False = (g1, Node, isNew)
                \<and> Node < length (graph E')
                \<and> location (graph E' ! Node) = ?Loc
                \<and> nstate (graph E' ! Node) = nstate (graph E ! Pred)
                \<and> Pred \<in> set (preds (graph E' ! Node))
                \<and> worklist E'
                     = (if isNew then worklist E @ [WorkListUnit Node None 0] else worklist E)
                \<and> isNew = (\<forall>i < length (graph E).
                     \<not> (location (graph E ! i) = ?Loc
                        \<and> nstate (graph E ! i) = nstate (graph E ! Pred)
                        \<and> \<not> isSink (graph E ! i)))"
    using r gn by blast
qed

theorem processCallEnter_node_witness:
  "getCFG (getAnalysisDeclContext (AMgr (ex_engine ex_enterGraph)) (getCtxDecl ex_calleeCtx))
     = Some ex_cfg
   \<and> elements (getEntry ex_cfg) = [] \<and> blockSuccs (getEntry ex_cfg) = [Some 1]
   \<and> 1 < length (graph (ex_engine ex_enterGraph))
   \<and> (\<exists>E'. processCallEnter (ex_engine ex_enterGraph) ex_calleeCtx 1 = Inr E'
          \<and> length (graph E') = 3
          \<and> location (graph E' ! 2) = BlockEdge 0 (Some 1) ex_calleeCtx
          \<and> nstate (graph E' ! 2) = ex_state0
          \<and> preds (graph E' ! 2) = [1]
          \<and> worklist E' = [WorkListUnit 2 None 0])
   \<and> processCallEnter
        ((ex_engine ex_enterGraph)\<lparr>AMgr := ex_amgr\<lparr>getAnalysisDeclContext :=
            (\<lambda>_. ex_adc\<lparr>getCFG := Some (ex_cfg\<lparr>getEntry :=
                     \<lparr>blockRef = 0, elements = [], blockSuccs = [Some 1, Some 2]\<rparr>\<rparr>)\<rparr>)\<rparr>\<rparr>)
        ex_calleeCtx 1
      = Inl (AssertionFailed ''Entry->succ_size() == 1'')"
  using processCallEnter_node [of "ex_engine ex_enterGraph" ex_calleeCtx ex_cfg 1 "Some 1"]
    processCallEnter_node
      [of "(ex_engine ex_enterGraph)\<lparr>AMgr := ex_amgr\<lparr>getAnalysisDeclContext :=
            (\<lambda>_. ex_adc\<lparr>getCFG := Some (ex_cfg\<lparr>getEntry :=
                     \<lparr>blockRef = 0, elements = [], blockSuccs = [Some 1, Some 2]\<rparr>\<rparr>)\<rparr>)\<rparr>\<rparr>"
          ex_calleeCtx
          "ex_cfg\<lparr>getEntry := \<lparr>blockRef = 0, elements = [], blockSuccs = [Some 1, Some 2]\<rparr>\<rparr>" 1]
  by (simp add: processCallEnter_def getNode_def addPredecessor_def enqueue_def Let_def ex_defs)

subsection \<open>The opaque path\<close>

text \<open>
  Claim C8: on the opaque path \<^verbatim>\<open>bindReturnValue\<close> leaves the state unchanged when
  the call has no origin expression; it binds the receiver's value for an Objective-C
  message of the autorelease, retain or self family, the value of \<^verbatim>\<open>this\<close> for a
  constructor call, and otherwise a conjured value made of the origin expression, the
  location context, the result type and the current block count. Two calls of this last
  kind that differ in expression, context, result type or block count are bound
  distinct values.
\<close>

theorem bindReturnValue_cases:
  "(getOriginExpr Call = None \<longrightarrow> bindReturnValue Eng Call LCtx State = State)
   \<and> (getOriginExpr Call = Some E \<and> getCallKind Call = CE_ObjCMessage
        \<and> getMethodFamily Call \<in> {OMF_autorelease, OMF_retain, OMF_self}
      \<longrightarrow> bindReturnValue Eng Call LCtx State = BindExpr State E LCtx (getReceiverSVal Call))
   \<and> (getOriginExpr Call = Some E \<and> getCallKind Call = CE_CXXConstructor
      \<longrightarrow> bindReturnValue Eng Call LCtx State = BindExpr State E LCtx (getCXXThisVal Call))
   \<and> (getOriginExpr Call = Some E \<and> getCallKind Call \<noteq> CE_CXXConstructor
        \<and> \<not> (getCallKind Call = CE_ObjCMessage
               \<and> getMethodFamily Call \<in> {OMF_autorelease, OMF_retain, OMF_self})
      \<longrightarrow> bindReturnValue Eng Call LCtx State
            = BindExpr State E LCtx
                (getConjuredSymbolVal E LCtx (getResultType Call) (currentBlockCount Eng)))
   \<and> (getOriginExpr Call = Some E \<and> getCallKind Call \<noteq> CE_CXXConstructor
        \<and> \<not> (getCallKind Call = CE_ObjCMessage
               \<and> getMethodFamily Call \<in> {OMF_autorelease, OMF_retain, OMF_self})
        \<and> getOriginExpr Call' = Some E' \<and> getCallKind Call' \<noteq> CE_CXXConstructor
        \<and> \<not> (getCallKind Call' = CE_ObjCMessage
               \<and> getMethodFamily Call' \<in> {OMF_autorelease, OMF_retain, OMF_self})
        \<and> (E', LCtx', getResultType Call', currentBlockCount Eng')
            \<noteq> (E, LCtx, getResultType Call, currentBlockCount Eng)
      \<longrightarrow> getSVal (bindReturnValue Eng' Call' LCtx' State') E' LCtx'
            \<noteq> getSVal (bindReturnValue Eng Call LCtx State) E LCtx)"
  by (auto simp: bindReturnValue_def BindExpr_def getSVal_def getConjuredSymbolVal_def Let_def)

theorem bindReturnValue_cases_witness:
  "getOriginExpr ex_callEvent = Some ex_call \<and> getCallKind ex_callEvent \<noteq> CE_CXXConstructor
   \<and> getSVal (bindReturnValue (ex_engine ex_callerGraph) ex_callEvent (Some ex_topCtx) ex_state0)
         ex_call (Some ex_topCtx)
       = ConjuredSymbolVal ex_call (Some ex_topCtx) 0 1
   \<and> getSVal (bindReturnValue ((ex_engine ex_callerGraph)\<lparr>currentBlockCount := 2\<rparr>)
                 ex_callEvent (Some ex_topCtx) ex_state0) ex_call (Some ex_topCtx)
       \<noteq> getSVal (bindReturnValue (ex_engine ex_callerGraph) ex_callEvent (Some ex_topCtx)
                   ex_state0) ex_call (Some ex_topCtx)
   \<and> bindReturnValue (ex_engine ex_callerGraph) (ex_ctorEvent (MemRegionVal (VarRegion 0)))
         (Some ex_topCtx) ex_state0
       = BindExpr ex_state0 (CXXConstructExpr 21 5 CK_Complete) (Some ex_topCtx)
           (MemRegionVal (VarRegion 0))
   \<and> bindReturnValue (ex_engine ex_callerGraph) (ex_callEvent\<lparr>getOriginExpr := None\<rparr>)
         (Some ex_topCtx) ex_state0 = ex_state0"
  using bindReturnValue_cases [of ex_callEvent "ex_engine ex_callerGraph" "Some ex_topCtx"
      ex_state0 ex_call ex_callEvent ex_call "Some ex_topCtx"
      "(ex_engine ex_callerGraph)\<lparr>currentBlockCount := 2\<rparr>" ex_state0]
    bindReturnValue_cases [of "ex_ctorEvent (MemRegionVal (VarRegion 0))"
      "ex_engine ex_callerGraph" "Some ex_topCtx" ex_state0 "CXXConstructExpr 21 5 CK_Complete"]
    bindReturnValue_cases [of "ex_callEvent\<lparr>getOriginExpr := None\<rparr>"
      "ex_engine ex_callerGraph" "Some ex_topCtx" ex_state0]
  by (simp add: bindReturnValue_def BindExpr_def getSVal_def getConjuredSymbolVal_def
      ex_callEvent_def ex_ctorEvent_def ex_engine_def ex_call_def)

lemma generateNode_props:
  assumes "generateNode PP State Pred (g, fr) = (g', fr')" and "Pred < length g"
  shows "\<exists>N < length g'. location (g' ! N) = PP \<and> nstate (g' ! N) = State
           \<and> Pred \<in> set (preds (g' ! N))
           \<and> (\<forall>i < length g'. length g \<le> i \<longrightarrow> i = N)"
proof -
  obtain g1 N isNew where gn: "getNode g PP State False = (g1, N, isNew)"
    by (metis prod_cases3)
  note p = getNode_props [OF gn]
  have g': "g' = addPredecessor N Pred g1" using assms gn by (simp add: generateNode_def Let_def)
  have len: "length g \<le> length g1" using p(5) by (simp add: graphExtends_def)
  have "\<forall>i < length g'. length g \<le> i \<longrightarrow> i = N"
  proof (cases isNew)
    case True
    then show ?thesis using p(6) g' by auto
  next
    case False
    then show ?thesis using p(7) g' by auto
  qed
  then show ?thesis
    using p(1-3) g' len assms(2) by (auto simp: addPredecessor_nth intro!: exI [of _ N])
qed

lemma evalCallOpaque_node:
  assumes pred: "Pred < length (graph E)"
  shows "\<exists>E' fr N. evalCallOpaque X E Bldr Pred Call State = (E', fr)
           \<and> worklist E' = worklist E
           \<and> N < length (graph E')
           \<and> location (graph E' ! N) = getProgramPoint Call
           \<and> nstate (graph E' ! N)
               = bindReturnValue E Call (getLocationContext (location (graph E ! Pred)))
                   (invalidateRegions X Call (currentBlockCount E) State)
           \<and> Pred \<in> set (preds (graph E' ! N))
           \<and> (\<forall>i < length (graph E'). length (graph E) \<le> i \<longrightarrow> i = N)"
proof -
  let ?S2 = "bindReturnValue E Call (getLocationContext (location (graph E ! Pred)))
               (invalidateRegions X Call (currentBlockCount E) State)"
  obtain g' fr' where gen: "generateNode (getProgramPoint Call) ?S2 Pred (graph E, Bldr) = (g', fr')"
    by (metis surj_pair)
  have ev: "evalCallOpaque X E Bldr Pred Call State = (E\<lparr>graph := g'\<rparr>, fr')"
    using gen by (simp add: evalCallOpaque_def Let_def)
  from generateNode_props [OF gen pred] obtain N where
    "N < length g'" "location (g' ! N) = getProgramPoint Call" "nstate (g' ! N) = ?S2"
    "Pred \<in> set (preds (g' ! N))" "\<forall>i < length g'. length (graph E) \<le> i \<longrightarrow> i = N"
    by blast
  then show ?thesis
    unfolding ev by (intro exI [of _ "E\<lparr>graph := g'\<rparr>"] exI [of _ fr'] exI [of _ N]) simp
qed

lemma defaultEvalCall_not_inlined:
  assumes "Pred < length (graph E)"
    and "Call = cloneWithState X CallTemplate (nstate (graph E ! Pred))"
    and "ReplayWithoutInlining (nstate (graph E ! Pred)) = None"
    and "inlineCall X E Call Pred = Inr (False, E)"
  shows "defaultEvalCall X E Bldr Pred CallTemplate
           = Inr (evalCallOpaque X E Bldr Pred Call (nstate (graph E ! Pred)))"
  using assms by (simp add: defaultEvalCall_def getInlineFailedState_def Let_def)

lemma defaultEvalCall_own_marker:
  assumes "Pred < length (graph E)"
    and "Call = cloneWithState X CallTemplate (nstate (graph E ! Pred))"
    and "ReplayWithoutInlining (nstate (graph E ! Pred)) = Some m"
    and "getOriginExpr Call = Some m"
  shows "defaultEvalCall X E Bldr Pred CallTemplate
           = Inr (evalCallOpaque X E Bldr Pred Call
                    ((nstate (graph E ! Pred))\<lparr>ReplayWithoutInlining := None\<rparr>))"
  using assms by (simp add: defaultEvalCall_def getInlineFailedState_def Let_def)

text \<open>
  Claim C5: when the state of \<open>Pred\<close> carries the replay-without-inlining marker,
  \<^verbatim>\<open>defaultEvalCall\<close> with a marker that names another expression than the origin
  expression of the call is a failed assertion. With the marker of the call it handles
  the call by the opaque path from the state without the marker, and \<^verbatim>\<open>inlineCall\<close>
  is not tried: the work-list is as before, and the only node that may be new is the
  node at the program point of the call, with \<open>Pred\<close> as predecessor and the state
  that the invalidation and the binding of the return value make of the state without
  the marker.
\<close>

theorem defaultEvalCall_replay:
  assumes pred: "Pred < length (graph E)"
    and marker: "ReplayWithoutInlining (nstate (graph E ! Pred)) = Some m"
    and call: "Call = cloneWithState X CallTemplate (nstate (graph E ! Pred))"
    and st: "State = (nstate (graph E ! Pred))\<lparr>ReplayWithoutInlining := None\<rparr>"
  shows "(getOriginExpr Call \<noteq> Some m
            \<longrightarrow> defaultEvalCall X E Bldr Pred CallTemplate
                  = Inl (AssertionFailed ''Backtracked to the wrong call.''))
       \<and> (getOriginExpr Call = Some m
            \<longrightarrow> ReplayWithoutInlining State = None
              \<and> defaultEvalCall X E Bldr Pred CallTemplate
                  = Inr (evalCallOpaque X E Bldr Pred Call State)
              \<and> (\<exists>E' fr N. defaultEvalCall X E Bldr Pred CallTemplate = Inr (E', fr)
                    \<and> worklist E' = worklist E
                    \<and> N < length (graph E')
                    \<and> location (graph E' ! N) = getProgramPoint Call
                    \<and> nstate (graph E' ! N)
                        = bindReturnValue E Call (getLocationContext (location (graph E ! Pred)))
                            (invalidateRegions X Call (currentBlockCount E) State)
                    \<and> Pred \<in> set (preds (graph E' ! N))
                    \<and> (\<forall>i < length (graph E'). length (graph E) \<le> i \<longrightarrow> i = N)))"
proof (intro conjI impI)
  assume "getOriginExpr Call \<noteq> Some m"
  then show "defaultEvalCall X E Bldr Pred CallTemplate
                  = Inl (AssertionFailed ''Backtracked to the wrong call.'')"
    using pred marker call
    by (simp add: defaultEvalCall_def getInlineFailedState_def Let_def)
next
  assume o: "getOriginExpr Call = Some m"
  show "ReplayWithoutInlining State = None" using st by simp
  show r: "defaultEvalCall X E Bldr Pred CallTemplate
                  = Inr (evalCallOpaque X E Bldr Pred Call State)"
    using pred marker call st o
    by (simp add: defaultEvalCall_def getInlineFailedState_def Let_def)
  let ?S2 = "bindReturnValue E Call (getLocationContext (location (graph E ! Pred)))
                            (invalidateRegions X Call (currentBlockCount E) State)"
  obtain g' fr' where gen: "generateNode (getProgramPoint Call) ?S2 Pred (graph E, Bldr) = (g', fr')"
    by (metis surj_pair)
  have ev: "evalCallOpaque X E Bldr Pred Call State = (E\<lparr>graph := g'\<rparr>, fr')"
    using gen by (simp add: evalCallOpaque_def Let_def)
  from generateNode_props [OF gen pred] obtain N where
    "N < length g'" "location (g' ! N) = getProgramPoint Call" "nstate (g' ! N) = ?S2"
    "Pred \<in> set (preds (g' ! N))" "\<forall>i < length g'. length (graph E) \<le> i \<longrightarrow> i = N"
    by blast
  then show "\<exists>E' fr N. defaultEvalCall X E Bldr Pred CallTemplate = Inr (E', fr)
                    \<and> worklist E' = worklist E
                    \<and> N < length (graph E')
                    \<and> location (graph E' ! N) = getProgramPoint Call
                    \<and> nstate (graph E' ! N) = ?S2
                    \<and> Pred \<in> set (preds (graph E' ! N))
                    \<and> (\<forall>i < length (graph E'). length (graph E) \<le> i \<longrightarrow> i = N)"
    unfolding r ev by (intro exI [of _ "E\<lparr>graph := g'\<rparr>"] exI [of _ fr'] exI [of _ N]) simp
qed

theorem defaultEvalCall_replay_witness:
  "0 < length (graph (ex_engine ex_replayGraph))
   \<and> ReplayWithoutInlining (nstate (graph (ex_engine ex_replayGraph) ! 0)) = Some ex_call
   \<and> getOriginExpr (cloneWithState ex_collab ex_callEvent
                       (nstate (graph (ex_engine ex_replayGraph) ! 0))) = Some ex_call
   \<and> (\<exists>E'. inlineCall ex_collab (ex_engine ex_replayGraph) ex_callEvent 0 = Inr (True, E'))
   \<and> (\<exists>E' fr. defaultEvalCall ex_collab (ex_engine ex_replayGraph) [0] 0 ex_callEvent
                  = Inr (E', fr)
          \<and> worklist E' = []
          \<and> length (graph E') = 2
          \<and> location (graph E' ! 1) = StmtPoint PostStmtKind ex_call ex_topCtx None
          \<and> ReplayWithoutInlining (nstate (graph E' ! 1)) = None
          \<and> getSVal (nstate (graph E' ! 1)) ex_call (Some ex_topCtx)
              = ConjuredSymbolVal ex_call (Some ex_topCtx) 0 1)
   \<and> defaultEvalCall ex_collab (ex_engine ex_replayGraph) [0] 0
        (ex_callEvent\<lparr>getOriginExpr := Some (CallExpr 99)\<rparr>)
      = Inl (AssertionFailed ''Backtracked to the wrong call.'')"
  using defaultEvalCall_replay [of 0 "ex_engine ex_replayGraph" ex_call
      "cloneWithState ex_collab ex_callEvent (nstate (graph (ex_engine ex_replayGraph) ! 0))"
      ex_collab ex_callEvent
      "(nstate (graph (ex_engine ex_replayGraph) ! 0))\<lparr>ReplayWithoutInlining := None\<rparr>" "[0]"]
    defaultEvalCall_replay [of 0 "ex_engine ex_replayGraph" ex_call
      "cloneWithState ex_collab (ex_callEvent\<lparr>getOriginExpr := Some (CallExpr 99)\<rparr>)
         (nstate (graph (ex_engine ex_replayGraph) ! 0))"
      ex_collab "ex_callEvent\<lparr>getOriginExpr := Some (CallExpr 99)\<rparr>"
      "(nstate (graph (ex_engine ex_replayGraph) ! 0))\<lparr>ReplayWithoutInlining := None\<rparr>" "[0]"]
  by (simp add: defaultEvalCall_def getInlineFailedState_def
      inlineCall_def inlineCallKind_def shouldInlineDecl_def getNumberStackFrames_def
      evalCallOpaque_def generateNode_def bindReturnValue_def BindExpr_def getSVal_def
      getConjuredSymbolVal_def getNode_def addPredecessor_def enqueue_def Let_def ex_defs)

subsection \<open>The inlining policy\<close>

lemma countStackFrames_depth: "countStackFrames c l = c + of_nat (stackFrameDepth l)"
  by (induction l arbitrary: c) (auto split: option.splits)

lemma getNumberStackFrames_of_nat: "getNumberStackFrames L = of_nat (numStackFrames L)"
  by (simp add: getNumberStackFrames_def numStackFrames_def countStackFrames_depth
      split: option.splits)

lemma getNumberStackFrames_eq_iff:
  assumes "numStackFrames L < 2 ^ 32"
  shows "getNumberStackFrames L = d \<longleftrightarrow> numStackFrames L = unat (d :: 32 word)"
proof -
  have "unat (of_nat (numStackFrames L) :: 32 word) = numStackFrames L"
    using assms by (simp add: unat_of_nat)
  then show ?thesis
    by (auto simp: getNumberStackFrames_of_nat)
qed

text \<open>
  Claim C2: \<^verbatim>\<open>shouldInlineDecl(D, Pred)\<close> is false exactly when the callee's CFG cannot
  be constructed, or the number of stack frames in the chain of \<open>Pred\<close> equals the
  maximum inlining depth, or the ledger records that \<open>D\<close> has reached its maximum block
  count, or the CFG has more blocks than the maximum function size, or the callee
  (function or block) is variadic, or its liveness analysis cannot be computed; it is
  true otherwise. The counter of the source is an \<^verbatim>\<open>unsigned\<close>: the chain is taken
  to have fewer than \<open>2 ^ 32\<close> stack frames, so that the counter is their number.
\<close>

theorem shouldInlineDecl_iff:
  assumes "numStackFrames (getLocationContext (location Pred)) < 2 ^ 32"
  shows "shouldInlineDecl E D Pred \<longleftrightarrow>
     \<not> (getCFG (getAnalysisDeclContext (AMgr E) D) = None
        \<or> numStackFrames (getLocationContext (location Pred))
            = unat (InlineMaxStackDepth (AMgr E))
        \<or> hasReachedMaxBlockCount E D
        \<or> (\<exists>c. getCFG (getAnalysisDeclContext (AMgr E) D) = Some c
               \<and> unat (getNumBlockIDs c) > unat (InlineMaxFunctionSize (AMgr E)))
        \<or> isVariadicBlockOrFunction D
        \<or> \<not> hasRelaxedLiveVariables (getAnalysisDeclContext (AMgr E) D))"
  using getNumberStackFrames_eq_iff [OF assms]
  by (auto simp: shouldInlineDecl_def Let_def word_less_nat_alt split: option.splits)

theorem shouldInlineDecl_iff_witness:
  "numStackFrames (getLocationContext (location (ex_callerGraph ! 0))) < 2 ^ 32
   \<and> shouldInlineDecl (ex_engine ex_callerGraph) ex_f (ex_callerGraph ! 0)
   \<and> \<not> shouldInlineDecl (ex_engine ex_callerGraph) (FunctionDecl 2 True) (ex_callerGraph ! 0)"
  using shouldInlineDecl_iff [of "ex_callerGraph ! 0" "ex_engine ex_callerGraph" ex_f]
    shouldInlineDecl_iff [of "ex_callerGraph ! 0" "ex_engine ex_callerGraph" "FunctionDecl 2 True"]
  by (simp add: ex_defs numStackFrames_def)

text \<open>
  Claim C10: when the analyzer-wide inline-call option is disabled, or the runtime
  definition of the call cannot be resolved, \<^verbatim>\<open>inlineCall\<close> returns false and leaves
  the engine as it is: no node, no stack frame, no work-list entry, whatever the
  collaborators and the predecessor are. \<^verbatim>\<open>defaultEvalCall\<close> then handles the call by
  the opaque path: when the state of \<open>Pred\<close> carries no replay marker, or the marker
  of this call, its result is that of the opaque steps from the state without the
  marker, the work-list is as before, and the only node that may be new is the node at
  the program point of the call, with \<open>Pred\<close> as predecessor and the state that the
  invalidation and the binding of the return value make.
\<close>

theorem inlineCall_disabled_or_unresolved:
  assumes "\<not> shouldInlineCall (AMgr E) \<or> getRuntimeDefinition Call = None"
  shows "inlineCall X E Call Pred = Inr (False, E)
     \<and> (Pred < length (graph E)
          \<and> Call = cloneWithState X CallTemplate (nstate (graph E ! Pred))
          \<and> (ReplayWithoutInlining (nstate (graph E ! Pred)) = None
              \<or> ReplayWithoutInlining (nstate (graph E ! Pred)) = getOriginExpr Call)
        \<longrightarrow> defaultEvalCall X E Bldr Pred CallTemplate
              = Inr (evalCallOpaque X E Bldr Pred Call
                       ((nstate (graph E ! Pred))\<lparr>ReplayWithoutInlining := None\<rparr>))
          \<and> (\<exists>E' fr N. defaultEvalCall X E Bldr Pred CallTemplate = Inr (E', fr)
                \<and> worklist E' = worklist E
                \<and> N < length (graph E')
                \<and> location (graph E' ! N) = getProgramPoint Call
                \<and> nstate (graph E' ! N)
                    = bindReturnValue E Call (getLocationContext (location (graph E ! Pred)))
                        (invalidateRegions X Call (currentBlockCount E)
                           ((nstate (graph E ! Pred))\<lparr>ReplayWithoutInlining := None\<rparr>))
                \<and> Pred \<in> set (preds (graph E' ! N))
                \<and> (\<forall>i < length (graph E'). length (graph E) \<le> i \<longrightarrow> i = N)))"
proof (intro conjI impI)
  show f: "inlineCall X E Call Pred = Inr (False, E)"
    using assms by (auto simp: inlineCall_def)
  assume a: "Pred < length (graph E)
          \<and> Call = cloneWithState X CallTemplate (nstate (graph E ! Pred))
          \<and> (ReplayWithoutInlining (nstate (graph E ! Pred)) = None
              \<or> ReplayWithoutInlining (nstate (graph E ! Pred)) = getOriginExpr Call)"
  let ?st = "nstate (graph E ! Pred)"
  from a have p: "Pred < length (graph E)"
    and c: "Call = cloneWithState X CallTemplate (nstate (graph E ! Pred))"
    by simp_all
  show r: "defaultEvalCall X E Bldr Pred CallTemplate
              = Inr (evalCallOpaque X E Bldr Pred Call (?st\<lparr>ReplayWithoutInlining := None\<rparr>))"
  proof (cases "ReplayWithoutInlining ?st")
    case None
    then have eq: "?st\<lparr>ReplayWithoutInlining := None\<rparr> = ?st" by simp
    show ?thesis
      unfolding eq by (rule defaultEvalCall_not_inlined [OF p c None f])
  next
    case (Some m)
    then have o: "getOriginExpr Call = Some m" using a by auto
    show ?thesis
      by (rule defaultEvalCall_own_marker [OF p c Some o])
  qed
  from evalCallOpaque_node [OF p, of X Bldr Call "?st\<lparr>ReplayWithoutInlining := None\<rparr>"]
  show "\<exists>E' fr N. defaultEvalCall X E Bldr Pred CallTemplate = Inr (E', fr)
                \<and> worklist E' = worklist E
                \<and> N < length (graph E')
                \<and> location (graph E' ! N) = getProgramPoint Call
                \<and> nstate (graph E' ! N)
                    = bindReturnValue E Call (getLocationContext (location (graph E ! Pred)))
                        (invalidateRegions X Call (currentBlockCount E)
                           (?st\<lparr>ReplayWithoutInlining := None\<rparr>))
                \<and> Pred \<in> set (preds (graph E' ! N))
                \<and> (\<forall>i < length (graph E'). length (graph E) \<le> i \<longrightarrow> i = N)"
    unfolding r by auto
qed

theorem inlineCall_disabled_or_unresolved_witness:
  "getRuntimeDefinition (ex_callEvent\<lparr>getRuntimeDefinition := None\<rparr>) = None
   \<and> inlineCall ex_collab (ex_engine ex_callerGraph)
        (ex_callEvent\<lparr>getRuntimeDefinition := None\<rparr>) 0
      = Inr (False, ex_engine ex_callerGraph)
   \<and> ReplayWithoutInlining (nstate (graph (ex_engine ex_callerGraph) ! 0)) = None
   \<and> (\<exists>E' fr. defaultEvalCall ex_collab (ex_engine ex_callerGraph) [0] 0
                  (ex_callEvent\<lparr>getRuntimeDefinition := None\<rparr>) = Inr (E', fr)
          \<and> worklist E' = []
          \<and> length (graph E') = 2
          \<and> location (graph E' ! 1) = StmtPoint PostStmtKind ex_call ex_topCtx None
          \<and> preds (graph E' ! 1) = [0]
          \<and> getSVal (nstate (graph E' ! 1)) ex_call (Some ex_topCtx)
              = ConjuredSymbolVal ex_call (Some ex_topCtx) 0 1
          \<and> fr = [1])
   \<and> \<not> shouldInlineCall (AMgr ((ex_engine ex_callerGraph)
                                  \<lparr>AMgr := ex_amgr\<lparr>shouldInlineCall := False\<rparr>\<rparr>))
   \<and> inlineCall ex_collab
        ((ex_engine ex_callerGraph)\<lparr>AMgr := ex_amgr\<lparr>shouldInlineCall := False\<rparr>\<rparr>)
        ex_callEvent 0
      = Inr (False, (ex_engine ex_callerGraph)\<lparr>AMgr := ex_amgr\<lparr>shouldInlineCall := False\<rparr>\<rparr>)
   \<and> (\<exists>E' fr. defaultEvalCall ex_collab
                  ((ex_engine ex_callerGraph)\<lparr>AMgr := ex_amgr\<lparr>shouldInlineCall := False\<rparr>\<rparr>)
                  [0] 0 ex_callEvent = Inr (E', fr)
          \<and> worklist E' = []
          \<and> length (graph E') = 2
          \<and> location (graph E' ! 1) = StmtPoint PostStmtKind ex_call ex_topCtx None)
   \<and> (\<exists>E'. inlineCall ex_collab (ex_engine ex_callerGraph) ex_callEvent 0 = Inr (True, E'))"
  using inlineCall_disabled_or_unresolved
    [of "ex_engine ex_callerGraph" "ex_callEvent\<lparr>getRuntimeDefinition := None\<rparr>" ex_collab 0
        "ex_callEvent\<lparr>getRuntimeDefinition := None\<rparr>" "[0]"]
    inlineCall_disabled_or_unresolved
    [of "(ex_engine ex_callerGraph)\<lparr>AMgr := ex_amgr\<lparr>shouldInlineCall := False\<rparr>\<rparr>"
      ex_callEvent ex_collab 0 ex_callEvent "[0]"]
  by (simp add: defaultEvalCall_def getInlineFailedState_def evalCallOpaque_def generateNode_def
      bindReturnValue_def BindExpr_def getSVal_def getConjuredSymbolVal_def
      inlineCall_def inlineCallKind_def shouldInlineDecl_def
      getNumberStackFrames_def getNode_def addPredecessor_def enqueue_def Let_def ex_defs)

lemma inlineCall_vetoed:
  assumes "Pred < length (graph E)"
    and "getLocationContext (location (graph E ! Pred)) = Some CurLC"
    and "\<And>D. inlineCallKind E Call D (getCurrentStackFrame CurLC) = Inr None"
  shows "inlineCall X E Call Pred = Inr (False, E)"
  using assms by (simp add: inlineCall_def Let_def split: option.splits)

lemma inlineCall_True:
  assumes "Pred < length (graph E)"
    and "getLocationContext (location (graph E ! Pred)) = Some CurLC"
    and "inlineCall X E Call Pred = Inr (True, E')"
  shows "\<exists>D P. inlineCallKind E Call D (getCurrentStackFrame CurLC) = Inr (Some P)"
  using assms
  by (auto simp: inlineCall_def Let_def split: option.splits if_splits sum.splits prod.splits)

lemma inlineCallKind_allocator:
  "getCallKind Call = CE_CXXAllocator \<Longrightarrow> inlineCallKind E Call D SFC = Inr None"
  by (simp add: inlineCallKind_def)

lemma inlineCallKind_cxx:
  assumes "getCallKind Call \<in> {CE_CXXConstructor, CE_CXXDestructor}"
  shows "inlineCallKind E Call D SFC = inlineCXXStructor E Call SFC"
  using assms by (auto simp: inlineCallKind_def)

text \<open>
  Claim C7: \<^verbatim>\<open>inlineCall\<close> never inlines an allocator call; it inlines a constructor
  or destructor call only if the caller's CFG is built with implicit destructors and
  with initializers, never when the receiver is an element region, and, for a
  complete-object construction, only when the receiver is a declaration region. In each
  vetoed case it returns false and leaves the engine as it is, and the call falls back
  to the opaque handling: \<^verbatim>\<open>defaultEvalCall\<close>, from a state without replay marker,
  gives the result of the opaque steps, with the work-list as before and, as the only
  node that may be new, the node at the program point of the call. \<open>Pred\<close> is a node
  of the graph whose location context has the stack frame \<open>CallerSFC\<close>.
\<close>

theorem inlineCall_kind_vetoes:
  assumes "Pred < length (graph E)"
    and "getLocationContext (location (graph E ! Pred)) = Some CurLC"
    and "getCurrentStackFrame CurLC = Some CallerSFC"
    and "opts = getCFGBuildOptions (getAnalysisDeclContext (AMgr E) (getCtxDecl CallerSFC))"
    and "Target = getAsRegion (getCXXThisVal Call)"
  shows "(getCallKind Call = CE_CXXAllocator \<longrightarrow> inlineCall X E Call Pred = Inr (False, E))
     \<and> (getCallKind Call \<in> {CE_CXXConstructor, CE_CXXDestructor}
          \<and> \<not> (AddImplicitDtors opts \<and> AddInitializers opts)
        \<longrightarrow> inlineCall X E Call Pred = Inr (False, E))
     \<and> (getCallKind Call \<in> {CE_CXXConstructor, CE_CXXDestructor}
          \<and> (\<exists>r. Target = Some r \<and> isElementRegion r)
        \<longrightarrow> inlineCall X E Call Pred = Inr (False, E))
     \<and> (getCallKind Call = CE_CXXConstructor
          \<and> getOriginExpr Call = Some (CXXConstructExpr i rd CK_Complete)
          \<and> \<not> (\<exists>r. Target = Some r \<and> isDeclRegion r)
        \<longrightarrow> inlineCall X E Call Pred = Inr (False, E))
     \<and> (inlineCall X E Call Pred = Inr (True, E')
        \<longrightarrow> getCallKind Call \<noteq> CE_CXXAllocator
          \<and> (getCallKind Call \<in> {CE_CXXConstructor, CE_CXXDestructor}
              \<longrightarrow> AddImplicitDtors opts \<and> AddInitializers opts
                \<and> \<not> (\<exists>r. Target = Some r \<and> isElementRegion r))
          \<and> (getCallKind Call = CE_CXXConstructor
              \<longrightarrow> (\<exists>i rd k. getOriginExpr Call = Some (CXXConstructExpr i rd k)
                     \<and> (k = CK_Complete \<longrightarrow> (\<exists>r. Target = Some r \<and> isDeclRegion r)))))
     \<and> (Call = cloneWithState X CallTemplate (nstate (graph E ! Pred))
          \<and> ReplayWithoutInlining (nstate (graph E ! Pred)) = None
          \<and> (getCallKind Call = CE_CXXAllocator
              \<or> getCallKind Call \<in> {CE_CXXConstructor, CE_CXXDestructor}
                  \<and> (\<not> (AddImplicitDtors opts \<and> AddInitializers opts)
                      \<or> (\<exists>r. Target = Some r \<and> isElementRegion r))
              \<or> getCallKind Call = CE_CXXConstructor
                  \<and> getOriginExpr Call = Some (CXXConstructExpr i rd CK_Complete)
                  \<and> \<not> (\<exists>r. Target = Some r \<and> isDeclRegion r))
        \<longrightarrow> defaultEvalCall X E Bldr Pred CallTemplate
              = Inr (evalCallOpaque X E Bldr Pred Call (nstate (graph E ! Pred)))
          \<and> (\<exists>E'' fr N. defaultEvalCall X E Bldr Pred CallTemplate = Inr (E'', fr)
                \<and> worklist E'' = worklist E
                \<and> N < length (graph E'')
                \<and> location (graph E'' ! N) = getProgramPoint Call
                \<and> nstate (graph E'' ! N)
                    = bindReturnValue E Call (getLocationContext (location (graph E ! Pred)))
                        (invalidateRegions X Call (currentBlockCount E)
                           (nstate (graph E ! Pred)))
                \<and> Pred \<in> set (preds (graph E'' ! N))
                \<and> (\<forall>i < length (graph E''). length (graph E) \<le> i \<longrightarrow> i = N)))"
proof -
  note v = inlineCall_vetoed [of Pred E CurLC Call X, OF assms(1,2), unfolded assms(3)]
  have a: "getCallKind Call = CE_CXXAllocator \<longrightarrow> inlineCall X E Call Pred = Inr (False, E)"
    by (auto intro!: v simp: inlineCallKind_allocator)
  have b: "getCallKind Call \<in> {CE_CXXConstructor, CE_CXXDestructor}
          \<and> \<not> (AddImplicitDtors opts \<and> AddInitializers opts)
        \<longrightarrow> inlineCall X E Call Pred = Inr (False, E)"
    using assms(4) by (auto intro!: v simp: inlineCallKind_cxx inlineCXXStructor_def Let_def)
  have c: "getCallKind Call \<in> {CE_CXXConstructor, CE_CXXDestructor}
          \<and> (\<exists>r. Target = Some r \<and> isElementRegion r)
        \<longrightarrow> inlineCall X E Call Pred = Inr (False, E)"
    using assms(5) by (auto intro!: v simp: inlineCallKind_cxx inlineCXXStructor_def Let_def)
  have d: "getCallKind Call = CE_CXXConstructor
          \<and> getOriginExpr Call = Some (CXXConstructExpr i rd CK_Complete)
          \<and> \<not> (\<exists>r. Target = Some r \<and> isDeclRegion r)
        \<longrightarrow> inlineCall X E Call Pred = Inr (False, E)"
    using assms(5) by (auto intro!: v simp: inlineCallKind_cxx inlineCXXStructor_def Let_def split: option.splits)
  have e: "getCallKind Call \<noteq> CE_CXXAllocator
          \<and> (getCallKind Call \<in> {CE_CXXConstructor, CE_CXXDestructor}
              \<longrightarrow> AddImplicitDtors opts \<and> AddInitializers opts
                \<and> \<not> (\<exists>r. Target = Some r \<and> isElementRegion r))
          \<and> (getCallKind Call = CE_CXXConstructor
              \<longrightarrow> (\<exists>i rd k. getOriginExpr Call = Some (CXXConstructExpr i rd k)
                     \<and> (k = CK_Complete \<longrightarrow> (\<exists>r. Target = Some r \<and> isDeclRegion r))))"
    if t: "inlineCall X E Call Pred = Inr (True, E')"
  proof -
    from inlineCall_True [OF assms(1,2) t] assms(3)
    obtain D P where k: "inlineCallKind E Call D (Some CallerSFC) = Inr (Some P)" by auto
    have 1: "getCallKind Call \<noteq> CE_CXXAllocator"
      using k by (auto simp: inlineCallKind_allocator)
    have 2: "AddImplicitDtors opts \<and> AddInitializers opts
                \<and> \<not> (\<exists>r. Target = Some r \<and> isElementRegion r)"
      if "getCallKind Call \<in> {CE_CXXConstructor, CE_CXXDestructor}"
      using k assms(4,5) inlineCallKind_cxx [OF that, of E D "Some CallerSFC"]
      by (auto simp: inlineCXXStructor_def Let_def split: if_splits)
    have 3: "\<exists>i rd k. getOriginExpr Call = Some (CXXConstructExpr i rd k)
                     \<and> (k = CK_Complete \<longrightarrow> (\<exists>r. Target = Some r \<and> isDeclRegion r))"
      if c: "getCallKind Call = CE_CXXConstructor"
    proof -
      have "getCallKind Call \<in> {CE_CXXConstructor, CE_CXXDestructor}" using c by simp
      from inlineCallKind_cxx [OF this, of E D "Some CallerSFC"] k assms(4,5) c show ?thesis
        by (auto simp: inlineCXXStructor_def Let_def split: if_splits option.splits stmt.splits)
    qed
    from 1 2 3 show ?thesis by blast
  qed
  have f: "defaultEvalCall X E Bldr Pred CallTemplate
              = Inr (evalCallOpaque X E Bldr Pred Call (nstate (graph E ! Pred)))
          \<and> (\<exists>E'' fr N. defaultEvalCall X E Bldr Pred CallTemplate = Inr (E'', fr)
                \<and> worklist E'' = worklist E
                \<and> N < length (graph E'')
                \<and> location (graph E'' ! N) = getProgramPoint Call
                \<and> nstate (graph E'' ! N)
                    = bindReturnValue E Call (getLocationContext (location (graph E ! Pred)))
                        (invalidateRegions X Call (currentBlockCount E)
                           (nstate (graph E ! Pred)))
                \<and> Pred \<in> set (preds (graph E'' ! N))
                \<and> (\<forall>i < length (graph E''). length (graph E) \<le> i \<longrightarrow> i = N))"
    if cl: "Call = cloneWithState X CallTemplate (nstate (graph E ! Pred))"
      and nm: "ReplayWithoutInlining (nstate (graph E ! Pred)) = None"
      and veto: "getCallKind Call = CE_CXXAllocator
              \<or> getCallKind Call \<in> {CE_CXXConstructor, CE_CXXDestructor}
                  \<and> (\<not> (AddImplicitDtors opts \<and> AddInitializers opts)
                      \<or> (\<exists>r. Target = Some r \<and> isElementRegion r))
              \<or> getCallKind Call = CE_CXXConstructor
                  \<and> getOriginExpr Call = Some (CXXConstructExpr i rd CK_Complete)
                  \<and> \<not> (\<exists>r. Target = Some r \<and> isDeclRegion r)"
  proof -
    have no: "inlineCall X E Call Pred = Inr (False, E)"
      using veto a b c d by blast
    have r: "defaultEvalCall X E Bldr Pred CallTemplate
              = Inr (evalCallOpaque X E Bldr Pred Call (nstate (graph E ! Pred)))"
      by (rule defaultEvalCall_not_inlined [OF assms(1) cl nm no])
    from evalCallOpaque_node [OF assms(1), of X Bldr Call "nstate (graph E ! Pred)"]
    show ?thesis unfolding r by auto
  qed
  show ?thesis
    apply (intro conjI)
    subgoal using a .
    subgoal using b .
    subgoal using c .
    subgoal using d .
    subgoal using e by blast
    subgoal using f by blast
    done
qed

theorem inlineCall_kind_vetoes_witness:
  "0 < length (graph (ex_engine ex_callerGraph))
   \<and> getLocationContext (location (graph (ex_engine ex_callerGraph) ! 0)) = Some ex_topCtx
   \<and> getCurrentStackFrame ex_topCtx = Some ex_topCtx
   \<and> ReplayWithoutInlining (nstate (graph (ex_engine ex_callerGraph) ! 0)) = None
   \<and> inlineCall ex_collab (ex_engine ex_callerGraph) ex_allocatorEvent 0
       = Inr (False, ex_engine ex_callerGraph)
   \<and> (\<exists>E' fr. defaultEvalCall ex_collab (ex_engine ex_callerGraph) [0] 0 ex_allocatorEvent
                  = Inr (E', fr)
          \<and> worklist E' = []
          \<and> length (graph E') = 2
          \<and> location (graph E' ! 1) = StmtPoint PostStmtKind ex_call ex_topCtx None
          \<and> preds (graph E' ! 1) = [0]
          \<and> getSVal (nstate (graph E' ! 1)) ex_call (Some ex_topCtx)
              = ConjuredSymbolVal ex_call (Some ex_topCtx) 0 1)
   \<and> inlineCall ex_collab (ex_engine ex_callerGraph)
         (ex_ctorEvent (MemRegionVal (ElementRegion 0))) 0
       = Inr (False, ex_engine ex_callerGraph)
   \<and> (\<exists>E' fr. defaultEvalCall ex_collab (ex_engine ex_callerGraph) [0] 0
                  (ex_ctorEvent (MemRegionVal (ElementRegion 0))) = Inr (E', fr)
          \<and> worklist E' = []
          \<and> length (graph E') = 2
          \<and> getSVal (nstate (graph E' ! 1)) (CXXConstructExpr 21 5 CK_Complete) (Some ex_topCtx)
              = MemRegionVal (ElementRegion 0))
   \<and> inlineCall ex_collab (ex_engine ex_callerGraph)
         (ex_ctorEvent (MemRegionVal (CXXTempObjectRegion 0))) 0
       = Inr (False, ex_engine ex_callerGraph)
   \<and> inlineCall ex_collab
         ((ex_engine ex_callerGraph)\<lparr>AMgr := ex_amgr\<lparr>getAnalysisDeclContext :=
            (\<lambda>_. ex_adc\<lparr>getCFGBuildOptions :=
                     \<lparr>AddImplicitDtors = False, AddInitializers = True\<rparr>\<rparr>)\<rparr>\<rparr>)
         (ex_ctorEvent (MemRegionVal (VarRegion 0))) 0
       = Inr (False, (ex_engine ex_callerGraph)\<lparr>AMgr := ex_amgr\<lparr>getAnalysisDeclContext :=
            (\<lambda>_. ex_adc\<lparr>getCFGBuildOptions :=
                     \<lparr>AddImplicitDtors = False, AddInitializers = True\<rparr>\<rparr>)\<rparr>\<rparr>)
   \<and> (\<exists>E'. inlineCall ex_collab (ex_engine ex_callerGraph)
         (ex_ctorEvent (MemRegionVal (VarRegion 0))) 0 = Inr (True, E'))"
  using inlineCall_kind_vetoes [of 0 "ex_engine ex_callerGraph" ex_topCtx ex_topCtx
      "getCFGBuildOptions ex_adc" "None" ex_allocatorEvent ex_collab _ _ _ ex_allocatorEvent]
    inlineCall_kind_vetoes [of 0 "ex_engine ex_callerGraph" ex_topCtx ex_topCtx
      "getCFGBuildOptions ex_adc" "Some (ElementRegion 0)"
      "ex_ctorEvent (MemRegionVal (ElementRegion 0))" ex_collab _ _ _
      "ex_ctorEvent (MemRegionVal (ElementRegion 0))"]
    inlineCall_kind_vetoes [of 0 "ex_engine ex_callerGraph" ex_topCtx ex_topCtx
      "getCFGBuildOptions ex_adc" "Some (CXXTempObjectRegion 0)"
      "ex_ctorEvent (MemRegionVal (CXXTempObjectRegion 0))" ex_collab 21 5]
    inlineCall_kind_vetoes [of 0 "(ex_engine ex_callerGraph)\<lparr>AMgr := ex_amgr\<lparr>getAnalysisDeclContext :=
            (\<lambda>_. ex_adc\<lparr>getCFGBuildOptions :=
                     \<lparr>AddImplicitDtors = False, AddInitializers = True\<rparr>\<rparr>)\<rparr>\<rparr>" ex_topCtx ex_topCtx
      "\<lparr>AddImplicitDtors = False, AddInitializers = True\<rparr>" "Some (VarRegion 0)"
      "ex_ctorEvent (MemRegionVal (VarRegion 0))" ex_collab]
  by (simp add: defaultEvalCall_def getInlineFailedState_def evalCallOpaque_def generateNode_def
      bindReturnValue_def BindExpr_def getSVal_def getConjuredSymbolVal_def
      inlineCall_def inlineCallKind_def inlineCXXStructor_def shouldInlineDecl_def
      getNumberStackFrames_def getNode_def addPredecessor_def enqueue_def Let_def ex_defs)

subsection \<open>The return sequence\<close>

lemma fun_eq_upd_iff: "(f = f(x := y)) = (f x = y)"
  using fun_upd_idem_iff [of f x y] by auto

lemma hasNode_extends:
  assumes "graphExtends g g'" and "hasNode g L st p"
  shows "hasNode g' L st p"
proof -
  from assms(2) obtain N where N: "N < length g" "location (g ! N) = L" "nstate (g ! N) = st"
    "p \<in> set (preds (g ! N))"
    by (auto simp: hasNode_def)
  from assms(1) N(1) have "N < length g'" "location (g' ! N) = location (g ! N)"
    "nstate (g' ! N) = nstate (g ! N)" "set (preds (g ! N)) \<subseteq> set (preds (g' ! N))"
    by (auto simp: graphExtends_def)
  with N show ?thesis by (auto simp: hasNode_def)
qed

lemma getNode_addPredecessor_hasNode:
  assumes "getNode g L st False = (g1, N, isNew)" and "p < length g"
  shows "hasNode (addPredecessor N p g1) L st p"
    and "graphExtends g (addPredecessor N p g1)"
proof -
  note q = getNode_props [OF assms(1)]
  show "hasNode (addPredecessor N p g1) L st p"
    unfolding hasNode_def using q(1-3) by (intro exI [of _ N]) (simp add: addPredecessor_nth)
  show "graphExtends g (addPredecessor N p g1)"
    using q(5) addPredecessor_extends graphExtends_trans by blast
qed

lemma callExitEndLoop_extends:
  assumes rc: "\<And>g n s. graphExtends g (fst (runCheckersForPostStmt X g n s))"
    and ok: "\<forall>i \<in> set Is. i < length (graph E)"
  shows "\<exists>E'. callExitEndLoop X calleeCtx callerCtx CE CEBNode state Is E = Inr E'
            \<and> graphExtends (graph E) (graph E')"
  using ok
proof (induction Is arbitrary: E)
  case Nil
  then show ?case by (simp add: graphExtends_refl)
next
  case (Cons I rest)
  let ?Loc = "CallExitEnd calleeCtx callerCtx"
  let ?st = "if I = CEBNode then state else nstate (graph E ! I)"
  have I: "I < length (graph E)" using Cons.prems by simp
  obtain g1 N isNew where gn: "getNode (graph E) ?Loc ?st False = (g1, N, isNew)"
    by (metis prod_cases3)
  let ?g2 = "addPredecessor N I g1"
  have ext2: "graphExtends (graph E) ?g2"
    using getNode_addPredecessor_hasNode(2) [OF gn I] .
  show ?case
  proof (cases isNew)
    case False
    then show ?thesis using I gn ext2 by (simp add: Let_def)
  next
    case True
    obtain g3 Dst where rcd:
      "(case CE of Some ce \<Rightarrow> runCheckersForPostStmt X ?g2 N ce | None \<Rightarrow> (?g2, [N])) = (g3, Dst)"
      by (metis surj_pair)
    have ext3: "graphExtends ?g2 g3"
    proof (cases CE)
      case None
      then show ?thesis using rcd by (simp add: graphExtends_refl)
    next
      case (Some ce)
      then have "g3 = fst (runCheckersForPostStmt X ?g2 N ce)" using rcd by simp
      then show ?thesis using rc by simp
    qed
    have ext: "graphExtends (graph E) g3" using ext2 ext3 graphExtends_trans by blast
    let ?E1 = "E\<lparr>graph := g3,
                 worklist := foldl (\<lambda>w PSI. enqueueAt PSI (getCallSiteBlock calleeCtx)
                                          (getIndex calleeCtx + 1) w) (worklist E) Dst\<rparr>"
    have "\<forall>i \<in> set rest. i < length (graph ?E1)"
      using Cons.prems ext by (auto simp: graphExtends_def)
    from Cons.IH [OF this] obtain E' where
      E': "callExitEndLoop X calleeCtx callerCtx CE CEBNode state rest ?E1 = Inr E'"
        "graphExtends (graph ?E1) (graph E')"
      by blast
    have "callExitEndLoop X calleeCtx callerCtx CE CEBNode state (I # rest) E = Inr E'"
      using I gn True rcd E'(1) by (simp add: Let_def)
    moreover have "graphExtends (graph E) (graph E')"
      using ext E'(2) graphExtends_trans by fastforce
    ultimately show ?thesis by blast
  qed
qed

lemma callExitEndLoop_head:
  assumes rc: "\<And>g n s. graphExtends g (fst (runCheckersForPostStmt X g n s))"
    and ok: "\<forall>i \<in> set (I # rest). i < length (graph E)"
  shows "\<exists>E'. callExitEndLoop X calleeCtx callerCtx CE CEBNode state (I # rest) E = Inr E'
            \<and> graphExtends (graph E) (graph E')
            \<and> hasNode (graph E') (CallExitEnd calleeCtx callerCtx)
                 (if I = CEBNode then state else nstate (graph E ! I)) I"
proof -
  let ?Loc = "CallExitEnd calleeCtx callerCtx"
  let ?st = "if I = CEBNode then state else nstate (graph E ! I)"
  have I: "I < length (graph E)" using ok by simp
  obtain g1 N isNew where gn: "getNode (graph E) ?Loc ?st False = (g1, N, isNew)"
    by (metis prod_cases3)
  let ?g2 = "addPredecessor N I g1"
  note h2 = getNode_addPredecessor_hasNode [OF gn I]
  show ?thesis
  proof (cases isNew)
    case False
    then show ?thesis using I gn h2 by (simp add: Let_def)
  next
    case True
    obtain g3 Dst where rcd:
      "(case CE of Some ce \<Rightarrow> runCheckersForPostStmt X ?g2 N ce | None \<Rightarrow> (?g2, [N])) = (g3, Dst)"
      by (metis surj_pair)
    have ext3: "graphExtends ?g2 g3"
    proof (cases CE)
      case None
      then show ?thesis using rcd by (simp add: graphExtends_refl)
    next
      case (Some ce)
      then have "g3 = fst (runCheckersForPostStmt X ?g2 N ce)" using rcd by simp
      then show ?thesis using rc by simp
    qed
    have ext: "graphExtends (graph E) g3" using h2(2) ext3 graphExtends_trans by blast
    let ?E1 = "E\<lparr>graph := g3,
                 worklist := foldl (\<lambda>w PSI. enqueueAt PSI (getCallSiteBlock calleeCtx)
                                          (getIndex calleeCtx + 1) w) (worklist E) Dst\<rparr>"
    have "\<forall>i \<in> set rest. i < length (graph ?E1)"
      using ok ext by (auto simp: graphExtends_def)
    from callExitEndLoop_extends [of X rest ?E1 calleeCtx callerCtx CE CEBNode state, OF rc this]
    obtain E' where
      E': "callExitEndLoop X calleeCtx callerCtx CE CEBNode state rest ?E1 = Inr E'"
        "graphExtends (graph ?E1) (graph E')"
      by blast
    have r: "callExitEndLoop X calleeCtx callerCtx CE CEBNode state (I # rest) E = Inr E'"
      using I gn True rcd E'(1) by (simp add: Let_def)
    have e23: "graphExtends ?g2 (graph E')"
      using ext3 E'(2) graphExtends_trans by fastforce
    have "graphExtends (graph E) (graph E')"
      using h2(2) e23 graphExtends_trans by blast
    moreover have "hasNode (graph E') ?Loc ?st I"
      using hasNode_extends [OF e23 h2(1)] .
    ultimately show ?thesis using r by blast
  qed
qed


lemma processCallExit_result:
  assumes X: "collaboratorsExtend X"
    and ceb: "CEB < length (graph E)"
    and lctx: "getLocationContext (location (graph E ! CEB)) = Some LCtx"
    and callee: "getCurrentStackFrame LCtx = Some calleeCtx"
    and parent: "getParent calleeCtx = Some parent"
    and last: "getLastStmt (graph E) CEB = Some (Inr (LastSt, Blk))"
    and state: "state = bindCallExitValue (getCallSite calleeCtx) LastSt calleeCtx parent LCtx
                          (nstate (graph E ! CEB))"
  shows "\<exists>E'. processCallExit X E CEB = Some (Inr E')
           \<and> graphExtends (graph E) (graph E')
           \<and> hasNode (graph E')
                (case (LastSt, Blk) of
                   (Some ls, Some b) \<Rightarrow> StmtPoint PostStmtKind ls calleeCtx (Some retValBind)
                 | _ \<Rightarrow> CallExitEnd calleeCtx (getCurrentStackFrame parent))
                state CEB"
proof -
  have rc: "\<And>g n s. graphExtends g (fst (runCheckersForPostStmt X g n s))"
    using X by (simp add: collaboratorsExtend_def)
  let ?callerCtx = "getCurrentStackFrame parent"
  let ?CE = "getCallSite calleeCtx"
  have direct: ?thesis if nb: "LastSt = None \<or> Blk = None"
  proof -
    have p: "processCallExit X E CEB
               = Some (callExitEndLoop X calleeCtx ?callerCtx ?CE CEB state [CEB] E)"
      using ceb lctx callee parent last state nb
      by (auto simp: processCallExit_def Let_def split: option.splits)
    have "\<forall>i \<in> set [CEB]. i < length (graph E)" using ceb by simp
    from callExitEndLoop_head [of X CEB "[]" E calleeCtx ?callerCtx ?CE CEB state, OF rc this]
    obtain E' where "callExitEndLoop X calleeCtx ?callerCtx ?CE CEB state [CEB] E = Inr E'"
      "graphExtends (graph E) (graph E')"
      "hasNode (graph E') (CallExitEnd calleeCtx ?callerCtx) state CEB"
      by auto
    then show ?thesis using p nb by (auto split: option.splits)
  qed
  show ?thesis
  proof (cases LastSt)
    case None
    then show ?thesis using direct by simp
  next
    case (Some ls)
    show ?thesis
    proof (cases Blk)
      case None
      then show ?thesis using direct by simp
    next
      case (Some b)
      let ?Loc = "StmtPoint PostStmtKind ls calleeCtx (Some retValBind)"
      obtain g1 N isNew where gn: "getNode (graph E) ?Loc state False = (g1, N, isNew)"
        by (metis prod_cases3)
      let ?g2 = "addPredecessor N CEB g1"
      note h2 = getNode_addPredecessor_hasNode [OF gn ceb]
      show ?thesis
      proof (cases isNew)
        case False
        have "processCallExit X E CEB = Some (Inr (E\<lparr>graph := ?g2\<rparr>))"
          using ceb lctx callee parent last state \<open>LastSt = Some ls\<close> Some gn False
          by (simp add: processCallExit_def Let_def)
        then show ?thesis using h2 \<open>LastSt = Some ls\<close> Some by simp
      next
        case True
        obtain g3 Cleaned where rd: "removeDead X ?g2 N ?callerCtx ls b = (g3, Cleaned)"
          by (metis surj_pair)
        have N: "N < length ?g2" using getNode_props(1) [OF gn] by simp
        have "graphExtends ?g2 (fst (removeDead X ?g2 N ?callerCtx ls b))
              \<and> (\<forall>i \<in> set (snd (removeDead X ?g2 N ?callerCtx ls b)).
                     i < length (fst (removeDead X ?g2 N ?callerCtx ls b)))"
          using X N unfolding collaboratorsExtend_def by blast
        then have ext3: "graphExtends ?g2 g3" and valid: "\<forall>i \<in> set Cleaned. i < length g3"
          using rd by simp_all
        have p: "processCallExit X E CEB
                  = Some (callExitEndLoop X calleeCtx ?callerCtx ?CE CEB state Cleaned
                            (E\<lparr>graph := g3\<rparr>))"
          using ceb lctx callee parent last state \<open>LastSt = Some ls\<close> Some gn True rd
          by (simp add: processCallExit_def Let_def)
        have "\<forall>i \<in> set Cleaned. i < length (graph (E\<lparr>graph := g3\<rparr>))" using valid by simp
        from callExitEndLoop_extends
          [of X Cleaned "E\<lparr>graph := g3\<rparr>" calleeCtx ?callerCtx ?CE CEB state, OF rc this]
        obtain E' where E':
          "callExitEndLoop X calleeCtx ?callerCtx ?CE CEB state Cleaned (E\<lparr>graph := g3\<rparr>) = Inr E'"
          "graphExtends g3 (graph E')"
          by auto
        have e2: "graphExtends ?g2 (graph E')" using ext3 E'(2) graphExtends_trans by blast
        have "graphExtends (graph E) (graph E')" using h2(2) e2 graphExtends_trans by blast
        moreover have "hasNode (graph E') ?Loc state CEB" using hasNode_extends [OF e2 h2(1)] .
        ultimately show ?thesis using p E'(1) \<open>LastSt = Some ls\<close> Some by simp
      qed
    qed
  qed
qed



lemma callExitEndLoop_removeDead:
  "callExitEndLoop (X\<lparr>removeDead := rd\<rparr>) calleeCtx callerCtx CE CEBNode state Is E
     = callExitEndLoop X calleeCtx callerCtx CE CEBNode state Is E"
  by (induction Is arbitrary: E) (simp_all add: Let_def split: prod.splits option.splits)

lemma collaboratorsExtend_ex_collab: "collaboratorsExtend ex_collab"
  by (simp add: collaboratorsExtend_def ex_collab_def graphExtends_refl)





text \<open>
  Claim C6, as stated: when \<^verbatim>\<open>getLastStmt\<close> finds neither a last statement nor its
  block, the call-exit-end node is made from the call-exit-begin node with the original
  state. It fails for a constructor without statements: the purge is skipped, but the
  state of the call-exit-end node is the state of the call-exit-begin node with the
  address of the constructed object bound to the construct expression, and no
  call-exit-end node has the original state.
\<close>

theorem processCallExit_original_state_counterexample:
  "getLastStmt (graph (ex_engine ex_ctorGraph)) 2 = Some (Inr (None, None))
   \<and> processCallExit ex_collab (ex_engine ex_ctorGraph) 2 = Some (Inr ex_ctorAfter)
   \<and> length (graph ex_ctorAfter) = 4
   \<and> location (graph ex_ctorAfter ! 3) = CallExitEnd ex_ctorCtx (Some ex_topCtx)
   \<and> preds (graph ex_ctorAfter ! 3) = [2]
   \<and> nstate (graph ex_ctorAfter ! 3) \<noteq> nstate (graph (ex_engine ex_ctorGraph) ! 2)
   \<and> lookupNode (graph ex_ctorAfter) (CallExitEnd ex_ctorCtx (Some ex_topCtx))
        (nstate (graph (ex_engine ex_ctorGraph) ! 2)) False = None"
  by (simp add: processCallExit_def getLastStmt_def findLastStmt.simps findBlock.simps
      bindCallExitValue_def getNode_def addPredecessor_def enqueueAt_def BindExpr_def
      getSVal_def getSValLoc_def Let_def ex_defs fun_upd_idem_iff fun_eq_upd_iff)

text \<open>
  Claim C6, amended: when \<^verbatim>\<open>getLastStmt\<close> finds neither a last statement nor its
  block, the purge is skipped (the result is the same whatever the purge is) and the
  call-exit-end node is made directly from the call-exit-begin node \<open>CEB\<close>, which is
  among its predecessors; its state is the state of \<open>CEB\<close> when the call site is
  absent or is not a construct expression, and the state of \<open>CEB\<close> with the value of
  \<^verbatim>\<open>this\<close> bound to the call site in the caller's context when the call site is a
  construct expression.
\<close>

theorem processCallExit_without_last_stmt:
  assumes "collaboratorsExtend X"
    and "CEB < length (graph E)"
    and "getLocationContext (location (graph E ! CEB)) = Some LCtx"
    and "getCurrentStackFrame LCtx = Some calleeCtx"
    and "getParent calleeCtx = Some parent"
    and "getLastStmt (graph E) CEB = Some (Inr (None, None))"
  shows "\<exists>E'. processCallExit X E CEB = Some (Inr E')
           \<and> (\<forall>rd. processCallExit (X\<lparr>removeDead := rd\<rparr>) E CEB = Some (Inr E'))
           \<and> hasNode (graph E') (CallExitEnd calleeCtx (getCurrentStackFrame parent))
                (case getCallSite calleeCtx of
                   Some (CXXConstructExpr i rd k) \<Rightarrow>
                     BindExpr (nstate (graph E ! CEB)) (CXXConstructExpr i rd k) (Some parent)
                       (getSValLoc (nstate (graph E ! CEB)) (CXXThisRegion rd calleeCtx))
                 | _ \<Rightarrow> nstate (graph E ! CEB))
                CEB"
proof -
  let ?st = "bindCallExitValue (getCallSite calleeCtx) None calleeCtx parent LCtx
               (nstate (graph E ! CEB))"
  from processCallExit_result [OF assms, of ?st]
  obtain E' where E': "processCallExit X E CEB = Some (Inr E')"
    "hasNode (graph E') (CallExitEnd calleeCtx (getCurrentStackFrame parent)) ?st CEB"
    by auto
  have st: "?st = (case getCallSite calleeCtx of
                   Some (CXXConstructExpr i rd k) \<Rightarrow>
                     BindExpr (nstate (graph E ! CEB)) (CXXConstructExpr i rd k) (Some parent)
                       (getSValLoc (nstate (graph E ! CEB)) (CXXThisRegion rd calleeCtx))
                 | _ \<Rightarrow> nstate (graph E ! CEB))"
    by (simp add: bindCallExitValue_def Let_def split: option.splits stmt.splits)
  have "processCallExit (X\<lparr>removeDead := rd\<rparr>) E CEB = processCallExit X E CEB" for rd
    using assms(2-6)
    by (simp add: processCallExit_def Let_def callExitEndLoop_removeDead
        del: callExitEndLoop.simps)
  with E' st show ?thesis by auto
qed

theorem processCallExit_without_last_stmt_witness:
  "collaboratorsExtend ex_collab
   \<and> getLastStmt (graph (ex_engine ex_ctorGraph)) 2 = Some (Inr (None, None))
   \<and> getLastStmt (graph (ex_engine ex_emptyGraph)) 2 = Some (Inr (None, None))
   \<and> (\<exists>E'. processCallExit ex_collab (ex_engine ex_ctorGraph) 2 = Some (Inr E')
          \<and> hasNode (graph E') (CallExitEnd ex_ctorCtx (Some ex_topCtx))
               (BindExpr ex_ctorState ex_ctorExpr (Some ex_topCtx) (MemRegionVal (VarRegion 0)))
               2)
   \<and> (\<exists>E'. processCallExit ex_collab (ex_engine ex_emptyGraph) 2 = Some (Inr E')
          \<and> hasNode (graph E') (CallExitEnd ex_calleeCtx (Some ex_topCtx)) ex_state0 2)"
proof -
  have l1: "getLastStmt (graph (ex_engine ex_ctorGraph)) 2 = Some (Inr (None, None))"
    and l2: "getLastStmt (graph (ex_engine ex_emptyGraph)) 2 = Some (Inr (None, None))"
    by (simp_all add: getLastStmt_def findLastStmt.simps findBlock.simps ex_defs)
  have h1: "2 < length (graph (ex_engine ex_ctorGraph))"
    "getLocationContext (location (graph (ex_engine ex_ctorGraph) ! 2)) = Some ex_ctorCtx"
    "getCurrentStackFrame ex_ctorCtx = Some ex_ctorCtx"
    "getParent ex_ctorCtx = Some ex_topCtx"
    by (simp_all add: ex_defs)
  have h2: "2 < length (graph (ex_engine ex_emptyGraph))"
    "getLocationContext (location (graph (ex_engine ex_emptyGraph) ! 2)) = Some ex_calleeCtx"
    "getCurrentStackFrame ex_calleeCtx = Some ex_calleeCtx"
    "getParent ex_calleeCtx = Some ex_topCtx"
    by (simp_all add: ex_defs)
  have s1: "(case getCallSite ex_ctorCtx of
                   Some (CXXConstructExpr i rd k) \<Rightarrow>
                     BindExpr (nstate (graph (ex_engine ex_ctorGraph) ! 2))
                       (CXXConstructExpr i rd k) (Some ex_topCtx)
                       (getSValLoc (nstate (graph (ex_engine ex_ctorGraph) ! 2))
                          (CXXThisRegion rd ex_ctorCtx))
                 | _ \<Rightarrow> nstate (graph (ex_engine ex_ctorGraph) ! 2))
            = BindExpr ex_ctorState ex_ctorExpr (Some ex_topCtx) (MemRegionVal (VarRegion 0))"
    by (simp add: getSValLoc_def ex_ctorCtx_def ex_ctorExpr_def ex_ctorGraph_def ex_engine_def
        ex_node_def ex_ctorState_def)
  have s2: "(case getCallSite ex_calleeCtx of
                   Some (CXXConstructExpr i rd k) \<Rightarrow>
                     BindExpr (nstate (graph (ex_engine ex_emptyGraph) ! 2))
                       (CXXConstructExpr i rd k) (Some ex_topCtx)
                       (getSValLoc (nstate (graph (ex_engine ex_emptyGraph) ! 2))
                          (CXXThisRegion rd ex_calleeCtx))
                 | _ \<Rightarrow> nstate (graph (ex_engine ex_emptyGraph) ! 2))
            = ex_state0"
    by (simp add: ex_calleeCtx_def ex_call_def ex_emptyGraph_def ex_engine_def ex_node_def)
  from processCallExit_without_last_stmt [OF collaboratorsExtend_ex_collab h1 l1, unfolded s1]
  have a: "\<exists>E'. processCallExit ex_collab (ex_engine ex_ctorGraph) 2 = Some (Inr E')
          \<and> hasNode (graph E') (CallExitEnd ex_ctorCtx (Some ex_topCtx))
               (BindExpr ex_ctorState ex_ctorExpr (Some ex_topCtx) (MemRegionVal (VarRegion 0)))
               2"
    by (auto simp: ex_topCtx_def)
  from processCallExit_without_last_stmt [OF collaboratorsExtend_ex_collab h2 l2, unfolded s2]
  have b: "\<exists>E'. processCallExit ex_collab (ex_engine ex_emptyGraph) 2 = Some (Inr E')
          \<and> hasNode (graph E') (CallExitEnd ex_calleeCtx (Some ex_topCtx)) ex_state0 2"
    by (auto simp: ex_topCtx_def)
  from collaboratorsExtend_ex_collab l1 l2 a b show ?thesis by simp
qed

text \<open>
  Claim C4 asks that every cleaned node gets its call-exit-end node by get-or-create,
  and that only a node that already existed has no downstream step run for it. In the
  source the \<^verbatim>\<open>return\<close> at a call-exit-end node that is not new leaves the loop over
  the cleaned nodes. Here the purge hands back the cleaned nodes 7 and 8; the
  call-exit-end node of node 7 is node 5, which exists already, and node 8 is left
  without a call-exit-end node: the graph has no call-exit-end node with the state of
  node 8, and nothing is enqueued.
\<close>

theorem processCallExit_drops_cleaned_node:
  "processCallExit ex_splitCollab (ex_engine ex_convergedGraph) 3 = Some (Inr ex_convergedAfter)
   \<and> location (graph ex_convergedAfter ! 8)
       = StmtPoint PostStmtPurgeDeadSymbolsKind ex_ret ex_calleeCtx None
   \<and> nstate (graph ex_convergedAfter ! 8) = ex_purged2
   \<and> lookupNode (graph ex_convergedAfter) (CallExitEnd ex_calleeCtx (Some ex_topCtx))
        ex_purged2 False = None
   \<and> worklist ex_convergedAfter = []"
  by (simp add: processCallExit_def getLastStmt_def findLastStmt.simps findBlock.simps
      bindCallExitValue_def getNode_def addPredecessor_def enqueueAt_def BindExpr_def
      getSVal_def getSValLoc_def Let_def ex_defs fun_eq_upd_iff)

end
